theory Spec2Isabelle
  imports Complex_Main
begin

section \<open>Ferroelectric polarization analysis (pymatgen.analysis.ferroelectricity.polarization)\<close>

text \<open>
  The module works on numpy arrays of floats. The embedding computes over the reals:
  a dipole or a coordinate triple is a \<open>vec3\<close>, an \<open>L\<times>3\<close> matrix is a list of rows.
  Every raise of the Python code is a value of \<open>error\<close>; where numpy would produce
  \<open>inf\<close> or \<open>nan\<close> (a division by a zero cell volume), which the reals do not have, the
  model reports \<open>NotFinite\<close>.
\<close>

subsection \<open>Vectors\<close>

type_synonym vec3 = "real \<times> real \<times> real"

datatype error = ValueError | KeyError | IndexError | TypeError | SplineError
  | NotFinite | DegenerateLattice

fun vadd :: "vec3 \<Rightarrow> vec3 \<Rightarrow> vec3" where
  "vadd (x1, y1, z1) (x2, y2, z2) = (x1 + x2, y1 + y2, z1 + z2)"

fun vsub :: "vec3 \<Rightarrow> vec3 \<Rightarrow> vec3" where
  "vsub (x1, y1, z1) (x2, y2, z2) = (x1 - x2, y1 - y2, z1 - z2)"

fun vneg :: "vec3 \<Rightarrow> vec3" where
  "vneg (x, y, z) = (- x, - y, - z)"

fun vscale :: "real \<Rightarrow> vec3 \<Rightarrow> vec3" where
  "vscale k (x, y, z) = (k * x, k * y, k * z)"

text \<open>\<open>v * k\<close> for an array \<open>v\<close> and a scalar \<open>k\<close>.\<close>

fun vtimes :: "vec3 \<Rightarrow> real \<Rightarrow> vec3" where
  "vtimes (x, y, z) k = (x * k, y * k, z * k)"

text \<open>\<open>np.multiply\<close> and \<open>np.divide\<close> of two 3-vectors: componentwise.\<close>

fun vmul :: "vec3 \<Rightarrow> vec3 \<Rightarrow> vec3" where
  "vmul (x1, y1, z1) (x2, y2, z2) = (x1 * x2, y1 * y2, z1 * z2)"

fun vdiv :: "vec3 \<Rightarrow> vec3 \<Rightarrow> vec3" where
  "vdiv (x1, y1, z1) (x2, y2, z2) = (x1 / x2, y1 / y2, z1 / z2)"

fun dot :: "vec3 \<Rightarrow> vec3 \<Rightarrow> real" where
  "dot (x1, y1, z1) (x2, y2, z2) = x1 * x2 + y1 * y2 + z1 * z2"

fun cross :: "vec3 \<Rightarrow> vec3 \<Rightarrow> vec3" where
  "cross (x1, y1, z1) (x2, y2, z2) =
     (y1 * z2 - z1 * y2, z1 * x2 - x1 * z2, x1 * y2 - y1 * x2)"

definition norm2 :: "vec3 \<Rightarrow> real" where
  "norm2 v = dot v v"

definition vnorm :: "vec3 \<Rightarrow> real" where
  "vnorm v = sqrt (norm2 v)"

definition vzero :: vec3 where
  "vzero = (0, 0, 0)"

text \<open>\<open>np.sum(rows, axis=0)\<close>: the rows added up, starting from zero.\<close>

definition np_sum_axis0 :: "vec3 list \<Rightarrow> vec3" where
  "np_sum_axis0 rows = foldl vadd vzero rows"

subsection \<open>Lattice, site and structure\<close>

text \<open>
  Modelled from the spec: the classes \<open>Lattice\<close>, \<open>PeriodicSite\<close> and \<open>Structure\<close> of
  \<open>pymatgen.core\<close> are imported by the module and are not among the source files. The
  spec gives a lattice three real basis vectors and derived lengths, angles and cell
  volume; a site fractional coordinates and a species; a structure an ordered list of
  sites and one lattice. The lengths are the norms of the basis vectors, the angles
  (in degrees) are those between the pairs of basis vectors (\<open>alpha\<close> between the
  second and third, \<open>beta\<close> between the third and first, \<open>gamma\<close> between the first and
  second), the volume is the absolute value of the triple product.
\<close>

record Lattice =
  matrix :: "vec3 \<times> vec3 \<times> vec3"

record PeriodicSite =
  frac_coords :: vec3
  specie :: string

record Structure =
  lattice :: Lattice
  site_list :: "PeriodicSite list"

definition lengths :: "Lattice \<Rightarrow> vec3" where
  "lengths l = (case matrix l of (va, vb, vc) \<Rightarrow> (vnorm va, vnorm vb, vnorm vc))"

definition abs_cap :: "real \<Rightarrow> real" where
  "abs_cap v = max (- 1) (min 1 v)"

definition angle_deg :: "vec3 \<Rightarrow> vec3 \<Rightarrow> real" where
  "angle_deg u v = arccos (abs_cap (dot u v / (vnorm u * vnorm v))) * 180 / pi"

definition angles :: "Lattice \<Rightarrow> vec3" where
  "angles l = (case matrix l of (va, vb, vc) \<Rightarrow>
     (angle_deg vb vc, angle_deg vc va, angle_deg va vb))"

definition lengths_and_angles :: "Lattice \<Rightarrow> vec3 \<times> vec3" where
  "lengths_and_angles l = (lengths l, angles l)"

definition det3 :: "vec3 \<times> vec3 \<times> vec3 \<Rightarrow> real" where
  "det3 m = (case m of (va, vb, vc) \<Rightarrow> dot (cross va vb) vc)"

definition volume :: "Lattice \<Rightarrow> real" where
  "volume l = \<bar>det3 (matrix l)\<bar>"

text \<open>Cartesian coordinates of a fractional point: the combination of the basis vectors.\<close>

definition get_cartesian_coords :: "Lattice \<Rightarrow> vec3 \<Rightarrow> vec3" where
  "get_cartesian_coords l f = (case (matrix l, f) of ((va, vb, vc), (f1, f2, f3)) \<Rightarrow>
     vadd (vadd (vscale f1 va) (vscale f2 vb)) (vscale f3 vc))"

subsection \<open>Ionic dipole moment\<close>

text \<open>
  \<open>calc_ionic\<close>: \<open>norms = structure.lattice.lengths_and_angles[0]\<close>, then
  \<open>np.multiply(norms, -site.frac_coords * zval)\<close>.
\<close>

definition calc_ionic :: "PeriodicSite \<Rightarrow> Structure \<Rightarrow> real \<Rightarrow> vec3" where
  "calc_ionic site structure zval =
     (let norms = fst (lengths_and_angles (lattice structure))
      in vmul norms (vtimes (vneg (frac_coords site)) zval))"

text \<open>
  \<open>get_total_ionic_dipole\<close>: the loop appends one \<open>calc_ionic\<close> per site, in order; the
  dictionary lookup \<open>zval_dict[str(site.specie)]\<close> raises \<open>KeyError\<close> at the first site
  whose species is missing. For a structure without sites numpy sums the empty list to
  the scalar \<open>0.0\<close>, which the model identifies with the zero vector.
\<close>

fun tot_ionic_loop :: "Structure \<Rightarrow> (string \<rightharpoonup> real) \<Rightarrow> PeriodicSite list \<Rightarrow> vec3 list
    \<Rightarrow> error + vec3 list" where
  "tot_ionic_loop structure zval_dict [] tot_ionic = Inr tot_ionic"
| "tot_ionic_loop structure zval_dict (site # rest) tot_ionic =
     (case zval_dict (specie site) of
        None \<Rightarrow> Inl KeyError
      | Some zval \<Rightarrow>
          tot_ionic_loop structure zval_dict rest (tot_ionic @ [calc_ionic site structure zval]))"

definition get_total_ionic_dipole :: "Structure \<Rightarrow> (string \<rightharpoonup> real) \<Rightarrow> error + vec3" where
  "get_total_ionic_dipole structure zval_dict =
     (case tot_ionic_loop structure zval_dict (site_list structure) [] of
        Inl e \<Rightarrow> Inl e
      | Inr tot_ionic \<Rightarrow> Inr (np_sum_axis0 tot_ionic))"

subsection \<open>The Polarization class\<close>

record Polarization =
  p_elecs :: "vec3 list"
  p_ions :: "vec3 list"
  structures :: "Structure list"

text \<open>
  \<open>Polarization.__init__\<close>: the length check, then the three sequences are stored
  (\<open>np.matrix\<close> of a list of 3-vectors keeps every row).
\<close>

definition Polarization_init :: "vec3 list \<Rightarrow> vec3 list \<Rightarrow> Structure list \<Rightarrow> error + Polarization" where
  "Polarization_init pes pis ss =
     (if length pes \<noteq> length pis \<or> length pes \<noteq> length ss then Inl ValueError
      else Inr \<lparr>p_elecs = pes, p_ions = pis, structures = ss\<rparr>)"

text \<open>
  A method of the class is a function from the instance to its result and the instance
  after the call, so that a write to \<open>self\<close> would show in the second component.
\<close>

type_synonym 'a pol_method = "Polarization \<Rightarrow> (error + 'a) \<times> Polarization"

definition e_to_muC :: real where
  "e_to_muC = - (16021766 / 10 ^ 20)"

definition cm2_to_A2 :: real where
  "cm2_to_A2 = 10 ^ 16"

text \<open>
  \<open>units = 1.0 / np.matrix(volumes)\<close> followed by \<open>units *= e_to_muC * cm2_to_A2\<close>.
  numpy divides by a zero volume to \<open>inf\<close>; the model reports it.
\<close>

definition conversion_units :: "real list \<Rightarrow> error + real list" where
  "conversion_units volumes =
     (if 0 \<in> set volumes then Inl NotFinite
      else Inr (map (\<lambda>v. 1 / v * (e_to_muC * cm2_to_A2)) volumes))"

text \<open>
  \<open>get_pelecs_and_pions\<close>: the stored matrices themselves when no conversion is asked;
  otherwise \<open>np.multiply(units, p.T).T\<close>, which scales row \<open>i\<close> by \<open>units[i]\<close>.
\<close>

definition get_pelecs_and_pions :: "bool \<Rightarrow> (vec3 list \<times> vec3 list) pol_method" where
  "get_pelecs_and_pions convert_to_muC_per_cm2 self =
     (if \<not> convert_to_muC_per_cm2 then (Inr (p_elecs self, p_ions self), self)
      else
        (let volumes = map (\<lambda>s. volume (lattice s)) (structures self)
         in case conversion_units volumes of
              Inl e \<Rightarrow> (Inl e, self)
            | Inr units \<Rightarrow>
                (Inr (map2 vscale units (p_elecs self), map2 vscale units (p_ions self)), self)))"

text \<open>
  Modelled from the spec: \<open>Lattice.from_lengths_and_angles\<close> (pymatgen.core.lattice, not
  among the source files) builds the lattice with the given lengths and angles. The
  spec fixes the lengths and angles only; the model places the third basis vector on
  the z axis and the first in the xz plane. A negative length turns its basis vector
  round, and the derived length is its absolute value.
\<close>

definition radians :: "real \<Rightarrow> real" where
  "radians d = d * pi / 180"

definition from_lengths_and_angles :: "vec3 \<Rightarrow> vec3 \<Rightarrow> Lattice" where
  "from_lengths_and_angles abc ang = (case (abc, ang) of ((a, b, c), (alpha, beta, gamma)) \<Rightarrow>
     (let alpha_r = radians alpha;
          beta_r = radians beta;
          gamma_r = radians gamma;
          val = abs_cap ((cos alpha_r * cos beta_r - cos gamma_r) / (sin alpha_r * sin beta_r));
          gamma_star = arccos val;
          vector_a = (a * sin beta_r, 0, a * cos beta_r);
          vector_b = (- b * sin alpha_r * cos gamma_star,
                      b * sin alpha_r * sin gamma_star,
                      b * cos alpha_r);
          vector_c = (0, 0, c)
      in \<lparr>matrix = (vector_a, vector_b, vector_c)\<rparr>))"

text \<open>
  The loop \<open>for i in range(L): lattices[i] = Lattice.from_lengths_and_angles(
  np.array(l) * units.A1[i], a)\<close> over the local list \<open>lattices\<close>.
\<close>

definition rescale_lattice :: "real \<Rightarrow> Lattice \<Rightarrow> Lattice" where
  "rescale_lattice u lat =
     (case lengths_and_angles lat of (l, a) \<Rightarrow> from_lengths_and_angles (vtimes l u) a)"

definition adjust_lattices :: "real list \<Rightarrow> nat \<Rightarrow> Lattice list \<Rightarrow> Lattice list" where
  "adjust_lattices units L lattices =
     fold (\<lambda>i ls. ls[i := rescale_lattice (units ! i) (ls ! i)]) [0..<L] lattices"

subsection \<open>Nearest periodic image\<close>

text \<open>
  Modelled from the spec: \<open>Structure.get_nearest_site\<close> (pymatgen.core.structure, not
  among the source files). The spec asks for a search over all translationally
  equivalent images of the site that returns the one closest, in real space, to the
  reference point, ties going to the lowest image index. A site has its representative
  in the unit cell (fractional coordinates in \<open>[0,1)\<close>); its images are that
  representative moved by integer triples, and the image index is that triple.

  Only finitely many images can be nearest. In direction \<open>d\<close> the real distance of a
  point from the reference is at least its fractional offset times the distance of the
  lattice planes, \<open>\<bar>det\<bar> / \<bar>n\<^sub>d\<bar>\<close> with \<open>n\<^sub>d\<close> the cross product of the other two basis
  vectors. So an image farther off in some direction than the window below is farther
  than the image got by rounding, and the search runs over the window, in increasing
  image index. For a lattice of zero volume there need not be a nearest image; the
  model reports \<open>DegenerateLattice\<close>.
\<close>

fun frac3 :: "vec3 \<Rightarrow> vec3" where
  "frac3 (f1, f2, f3) = (frac f1, frac f2, frac f3)"

fun shift_image :: "vec3 \<Rightarrow> int \<times> int \<times> int \<Rightarrow> vec3" where
  "shift_image (f1, f2, f3) (k1, k2, k3) = (f1 + of_int k1, f2 + of_int k2, f3 + of_int k3)"

definition dist2 :: "Lattice \<Rightarrow> vec3 \<Rightarrow> vec3 \<Rightarrow> real" where
  "dist2 l coords f = norm2 (vsub (get_cartesian_coords l f) coords)"

text \<open>The first element of the list with the least key; \<open>x\<close> when the list is empty.\<close>

fun first_min :: "('a \<Rightarrow> real) \<Rightarrow> 'a \<Rightarrow> 'a list \<Rightarrow> 'a" where
  "first_min key x [] = x"
| "first_min key x (y # ys) = first_min key (if key y < key x then y else x) ys"

definition normals :: "Lattice \<Rightarrow> vec3 \<times> vec3 \<times> vec3" where
  "normals l = (case matrix l of (va, vb, vc) \<Rightarrow> (cross vb vc, cross vc va, cross va vb))"

text \<open>The fractional coordinates of a cartesian point (Cramer's rule).\<close>

definition get_fractional_coords :: "Lattice \<Rightarrow> vec3 \<Rightarrow> vec3" where
  "get_fractional_coords l coords =
     (case normals l of (n1, n2, n3) \<Rightarrow>
        (dot coords n1 / det3 (matrix l), dot coords n2 / det3 (matrix l),
         dot coords n3 / det3 (matrix l)))"

definition rounded_image :: "Lattice \<Rightarrow> vec3 \<Rightarrow> vec3 \<Rightarrow> int \<times> int \<times> int" where
  "rounded_image l coords f0 =
     (case (get_fractional_coords l coords, f0) of ((g1, g2, g3), (f1, f2, f3)) \<Rightarrow>
        (\<lfloor>g1 - f1 + 1 / 2\<rfloor>, \<lfloor>g2 - f2 + 1 / 2\<rfloor>, \<lfloor>g3 - f3 + 1 / 2\<rfloor>))"

text \<open>A number that is at least the square root of \<open>x\<close>.\<close>

definition window_radius :: "real \<Rightarrow> real" where
  "window_radius x = (if x \<le> 1 then 1 else x)"

definition window_radii :: "Lattice \<Rightarrow> vec3 \<Rightarrow> vec3 \<Rightarrow> vec3" where
  "window_radii l coords f0 =
     (let D2 = dist2 l coords (shift_image f0 (rounded_image l coords f0));
          dd = det3 (matrix l) * det3 (matrix l)
      in case normals l of (n1, n2, n3) \<Rightarrow>
           (window_radius (D2 * norm2 n1 / dd), window_radius (D2 * norm2 n2 / dd),
            window_radius (D2 * norm2 n3 / dd)))"

definition index_range :: "real \<Rightarrow> real \<Rightarrow> real \<Rightarrow> int list" where
  "index_range g f w = [\<lceil>g - f - w\<rceil> .. \<lfloor>g - f + w\<rfloor>]"

definition image_window :: "Lattice \<Rightarrow> vec3 \<Rightarrow> vec3 \<Rightarrow> (int \<times> int \<times> int) list" where
  "image_window l coords f0 =
     (case (get_fractional_coords l coords, f0, window_radii l coords f0) of
        ((g1, g2, g3), (f1, f2, f3), (w1, w2, w3)) \<Rightarrow>
          concat (map (\<lambda>k1. concat (map (\<lambda>k2. map (\<lambda>k3. (k1, k2, k3)) (index_range g3 f3 w3))
                                          (index_range g2 f2 w2)))
                      (index_range g1 f1 w1)))"

definition get_nearest_site :: "Lattice \<Rightarrow> vec3 \<Rightarrow> vec3 \<Rightarrow> error + vec3" where
  "get_nearest_site l coords f =
     (if det3 (matrix l) = 0 then Inl DegenerateLattice
      else
        (let f0 = frac3 f;
             images = image_window l coords f0
         in case images of
              [] \<Rightarrow> Inl IndexError
            | k # ks \<Rightarrow>
                Inr (shift_image f0 (first_min (\<lambda>k. dist2 l coords (shift_image f0 k)) k ks))))"

subsection \<open>Same-branch polarization\<close>

text \<open>
  \<open>len\<close> of the matrix \<open>np.matrix(rows)\<close>: the number of rows, except that an empty
  list makes a \<open>1\<times>0\<close> matrix, of length 1.
\<close>

definition np_matrix_len :: "vec3 list \<Rightarrow> nat" where
  "np_matrix_len rows = (if rows = [] then 1 else length rows)"

text \<open>
  The main loop of \<open>get_same_branch_polarization_data\<close>. A site of a one-site structure
  \<open>d\<close> is kept as the pair of the structure's lattice and the fractional coordinates;
  \<open>site.coords\<close> are its cartesian coordinates.
\<close>

definition site_coords :: "Lattice \<times> vec3 \<Rightarrow> vec3" where
  "site_coords s = get_cartesian_coords (fst s) (snd s)"

fun branch_loop :: "Lattice list \<Rightarrow> vec3 list \<Rightarrow> nat list \<Rightarrow> (Lattice \<times> vec3) list
    \<Rightarrow> error + (Lattice \<times> vec3) list" where
  "branch_loop lattices p_tot [] sites = Inr sites"
| "branch_loop lattices p_tot (i # rest) sites =
     (let l = lattices ! i;
          frac_coord = vdiv (p_tot ! i) (lengths l);
          prev_site = (if i = 0 then (0, 0, 0) else site_coords (last sites))
      in case get_nearest_site l prev_site frac_coord of
           Inl e \<Rightarrow> Inl e
         | Inr new_site \<Rightarrow> branch_loop lattices p_tot rest (sites @ [(l, new_site)]))"

text \<open>
  \<open>get_same_branch_polarization_data\<close>. The rows of \<open>p_tot\<close> are the sums of the stored
  rows. \<open>lattices[i]\<close> is read for every \<open>i < L\<close> with \<open>L = len(p_elec)\<close>: on an instance
  without steps \<open>L\<close> is 1 and the read raises \<open>IndexError\<close>.
\<close>

definition get_same_branch_polarization_data :: "bool \<Rightarrow> (vec3 list) pol_method" where
  "get_same_branch_polarization_data convert_to_muC_per_cm2 self =
     (case get_pelecs_and_pions False self of
        (Inl e, self1) \<Rightarrow> (Inl e, self1)
      | (Inr (p_elec, p_ion), self1) \<Rightarrow>
          (let p_tot = map2 vadd p_elec p_ion;
               lattices = map lattice (structures self1);
               volumes = map volume lattices;
               L = np_matrix_len p_elec
           in if convert_to_muC_per_cm2 then
                (case conversion_units volumes of
                   Inl e \<Rightarrow> (Inl e, self1)
                 | Inr units \<Rightarrow>
                     if length lattices < L then (Inl IndexError, self1)
                     else
                       (case branch_loop (adjust_lattices units L lattices)
                               (map2 vscale units p_tot) [0..<L] [] of
                          Inl e \<Rightarrow> (Inl e, self1)
                        | Inr sites \<Rightarrow>
                            (Inr (map (\<lambda>(l, s). vmul s (lengths l)) sites), self1)))
              else if length lattices < L then (Inl IndexError, self1)
              else
                (case branch_loop lattices p_tot [0..<L] [] of
                   Inl e \<Rightarrow> (Inl e, self1)
                 | Inr sites \<Rightarrow> (Inr (map (\<lambda>(l, s). vmul s (lengths l)) sites), self1))))"

text \<open>\<open>get_lattice_quanta\<close>: the lengths of the, possibly rescaled, lattices.\<close>

definition get_lattice_quanta :: "bool \<Rightarrow> (vec3 list) pol_method" where
  "get_lattice_quanta convert_to_muC_per_cm2 self =
     (let lattices = map lattice (structures self);
          volumes = map volume lattices;
          L = length (structures self)
      in if convert_to_muC_per_cm2 then
           (case conversion_units volumes of
              Inl e \<Rightarrow> (Inl e, self)
            | Inr units \<Rightarrow>
                (Inr (map (\<lambda>l. fst (lengths_and_angles l)) (adjust_lattices units L lattices)),
                 self))
         else (Inr (map (\<lambda>l. fst (lengths_and_angles l)) lattices), self))"

text \<open>
  \<open>get_polarization_change\<close>: \<open>tot[-1] - tot[0]\<close> of the converted same-branch rows
  (there is always at least one row when the call above returns).
\<close>

definition get_polarization_change :: "vec3 pol_method" where
  "get_polarization_change self =
     (case get_same_branch_polarization_data True self of
        (Inl e, self1) \<Rightarrow> (Inl e, self1)
      | (Inr tot, self1) \<Rightarrow>
          (if tot = [] then (Inl IndexError, self1) else (Inr (vsub (last tot) (hd tot)), self1)))"

text \<open>
  \<open>get_polarization_change_norm\<close>: \<open>self.structures[-1]\<close> raises on an empty list;
  dividing a zero basis vector by its norm gives \<open>nan\<close>.
\<close>

definition get_polarization_change_norm :: "real pol_method" where
  "get_polarization_change_norm self =
     (if structures self = [] then (Inl IndexError, self)
      else
        (let polar = last (structures self)
         in case matrix (lattice polar) of (a, b, c) \<Rightarrow>
              if vnorm a = 0 \<or> vnorm b = 0 \<or> vnorm c = 0 then (Inl NotFinite, self)
              else
                (let a' = vscale (1 / vnorm a) a;
                     b' = vscale (1 / vnorm b) b;
                     c' = vscale (1 / vnorm c) c
                 in case get_polarization_change self of
                      (Inl e, self1) \<Rightarrow> (Inl e, self1)
                    | (Inr (P0, P1, P2), self1) \<Rightarrow>
                        (Inr (vnorm (vadd (vadd (vtimes a' P0) (vtimes b' P1)) (vtimes c' P2))),
                         self1))))"

subsection \<open>Splines\<close>

text \<open>
  \<open>scipy.interpolate.UnivariateSpline\<close> is a library outside the repository. A fitted
  spline is a real function; the fitting primitive \<open>fit k xs ys\<close> is a parameter of the
  model, with \<open>None\<close> when the constructor raises, and so is \<open>derivative\<close>.
\<close>

type_synonym spline = "real \<Rightarrow> real"

type_synonym fitter = "nat \<Rightarrow> real list \<Rightarrow> real list \<Rightarrow> spline option"

definition py_range :: "nat \<Rightarrow> real list" where
  "py_range L = map real [0..<L]"

fun component :: "nat \<Rightarrow> vec3 \<Rightarrow> real" where
  "component i (x, y, z) = (if i = 0 then x else if i = 1 then y else z)"

text \<open>\<open>tot[:,i].A1\<close>\<close>

definition column :: "nat \<Rightarrow> vec3 list \<Rightarrow> real list" where
  "column i tot = map (component i) tot"

text \<open>Python's \<open>max\<close> of a sequence: \<open>ValueError\<close> when it is empty.\<close>

definition py_max :: "real list \<Rightarrow> error + real" where
  "py_max xs = (case xs of [] \<Rightarrow> Inl ValueError | x # rest \<Rightarrow> Inr (fold max rest x))"

text \<open>
  \<open>same_branch_splines\<close>: three fits (of the default degree 3), each inside its own
  \<open>try\<close> with a bare \<open>except\<close> that puts \<open>None\<close> in its place.
\<close>

definition same_branch_splines ::
    "fitter \<Rightarrow> (spline option \<times> spline option \<times> spline option) pol_method" where
  "same_branch_splines fit self =
     (case get_same_branch_polarization_data True self of
        (Inl e, self1) \<Rightarrow> (Inl e, self1)
      | (Inr tot, self1) \<Rightarrow>
          (let L = length tot;
               sp_a = fit 3 (py_range L) (column 0 tot);
               sp_b = fit 3 (py_range L) (column 1 tot);
               sp_c = fit 3 (py_range L) (column 2 tot)
           in (Inr (sp_a, sp_b, sp_c), self1)))"

text \<open>
  The loop of \<open>max_spline_jumps\<close> over \<open>enumerate(sps)\<close>, writing into the local list
  \<open>max_jumps\<close>.
\<close>

fun max_jumps_loop :: "vec3 list \<Rightarrow> (nat \<times> spline option) list \<Rightarrow> real option list
    \<Rightarrow> error + real option list" where
  "max_jumps_loop tot [] max_jumps = Inr max_jumps"
| "max_jumps_loop tot ((i, sp) # rest) max_jumps =
     (case sp of
        None \<Rightarrow> max_jumps_loop tot rest max_jumps
      | Some f \<Rightarrow>
          (let col = column i tot
           in case py_max (map2 (-) col (map f (py_range (length col)))) of
                Inl e \<Rightarrow> Inl e
              | Inr m \<Rightarrow> max_jumps_loop tot rest (max_jumps[i := Some m])))"

definition max_spline_jumps :: "fitter \<Rightarrow> (real option list) pol_method" where
  "max_spline_jumps fit self =
     (case get_same_branch_polarization_data True self of
        (Inl e, self1) \<Rightarrow> (Inl e, self1)
      | (Inr tot, self1) \<Rightarrow>
          (case same_branch_splines fit self1 of
             (Inl e, self2) \<Rightarrow> (Inl e, self2)
           | (Inr (sp_a, sp_b, sp_c), self2) \<Rightarrow>
               (max_jumps_loop tot [(0, sp_a), (1, sp_b), (2, sp_c)] [None, None, None],
                self2)))"

text \<open>
  \<open>Polarization.smoothness\<close>. The value is paired with the lines printed. An exception of
  \<open>same_branch_splines\<close> is caught, printed and answered with \<open>None\<close>; calling a spline
  that is \<open>None\<close> raises \<open>TypeError\<close>.
\<close>

definition rms :: "real list \<Rightarrow> nat \<Rightarrow> real" where
  "rms diff L = sqrt (sum_list (map (\<lambda>d. d * d) diff) / real L)"

definition smoothness :: "fitter \<Rightarrow> (real list option \<times> string list) pol_method" where
  "smoothness fit self =
     (case get_same_branch_polarization_data True self of
        (Inl e, self1) \<Rightarrow> (Inl e, self1)
      | (Inr tot, self1) \<Rightarrow>
          (let L = length tot
           in case same_branch_splines fit self1 of
                (Inl e, self2) \<Rightarrow> (Inr (None, [''Something went wrong.'']), self2)
              | (Inr (Some sp_a, Some sp_b, Some sp_c), self2) \<Rightarrow>
                  (let sp_latt = [map sp_a (py_range L), map sp_b (py_range L),
                                  map sp_c (py_range L)];
                       diff = map (\<lambda>i. map2 (-) (sp_latt ! i) (column i tot)) [0, 1, 2]
                   in (Inr (Some (map (\<lambda>i. rms (diff ! i) L) [0, 1, 2]), []), self2))
              | (Inr _, self2) \<Rightarrow> (Inl TypeError, self2)))"

subsection \<open>The EnergyTrend class\<close>

record EnergyTrend =
  energies :: "real list"

text \<open>\<open>EnergyTrend.__init__\<close> stores its argument; there is nothing else in it.\<close>

definition EnergyTrend_init :: "real list \<Rightarrow> error + EnergyTrend" where
  "EnergyTrend_init es = Inr \<lparr>energies = es\<rparr>"

type_synonym 'a trend_method = "EnergyTrend \<Rightarrow> (error + 'a) \<times> EnergyTrend"

text \<open>\<open>spline\<close>: a fit of degree 4; an exception of the constructor goes to the caller.\<close>

definition spline :: "fitter \<Rightarrow> spline trend_method" where
  "spline fit self =
     (case fit 4 (py_range (length (energies self))) (energies self) of
        None \<Rightarrow> (Inl SplineError, self)
      | Some sp \<Rightarrow> (Inr sp, self))"

text \<open>
  \<open>EnergyTrend.smoothness\<close>: the value is paired with the lines printed. With no
  energies the quotient is \<open>0.0 / 0\<close>, numpy's \<open>nan\<close>.
\<close>

definition energy_smoothness :: "fitter \<Rightarrow> (real option \<times> string list) trend_method" where
  "energy_smoothness fit self =
     (let es = energies self
      in case spline fit self of
           (Inl e, self1) \<Rightarrow> (Inr (None, [''Energy spline failed.'']), self1)
         | (Inr sp, self1) \<Rightarrow>
             (let spline_energies = map sp (py_range (length es));
                  diff = map2 (-) spline_energies es
              in if length es = 0 then (Inl NotFinite, self1)
                 else (Inr (Some (rms diff (length es)), []), self1)))"

definition max_spline_jump :: "fitter \<Rightarrow> real trend_method" where
  "max_spline_jump fit self =
     (case spline fit self of
        (Inl e, self1) \<Rightarrow> (Inl e, self1)
      | (Inr sp, self1) \<Rightarrow>
          (py_max (map2 (-) (energies self1) (map sp (py_range (length (energies self1))))),
           self1))"

text \<open>
  \<open>endpoints_minima\<close>: the dictionary with the keys \<open>polar\<close> and \<open>nonpolar\<close> is the pair
  of the two booleans, in that order.
\<close>

definition endpoints_minima ::
    "fitter \<Rightarrow> (spline \<Rightarrow> spline) \<Rightarrow> real \<Rightarrow> ((bool \<times> bool) option \<times> string list) trend_method" where
  "endpoints_minima fit derivative slope_cutoff self =
     (let es = energies self
      in case spline fit self of
           (Inl e, self1) \<Rightarrow> (Inr (None, [''Energy spline failed.'']), self1)
         | (Inr sp, self1) \<Rightarrow>
             (let der = derivative sp;
                  der_energies = map der (py_range (length es))
              in if der_energies = [] then (Inl IndexError, self1)
                 else (Inr (Some (\<bar>last der_energies\<bar> \<le> slope_cutoff,
                                  \<bar>hd der_energies\<bar> \<le> slope_cutoff), []), self1)))"

subsection \<open>Example data\<close>

definition unit_cell :: Lattice where
  "unit_cell = \<lparr>matrix = ((1, 0, 0), (0, 1, 0), (0, 0, 1))\<rparr>"

definition LiO :: Structure where
  "LiO = \<lparr>lattice = unit_cell,
          site_list = [\<lparr>frac_coords = (0, 0, 0), specie = ''Li''\<rparr>,
                       \<lparr>frac_coords = (1/2, 1/2, 1/4), specie = ''O''\<rparr>]\<rparr>"

definition T1 :: Polarization where
  "T1 = \<lparr>p_elecs = [(1, 2, 3)], p_ions = [(0, 0, 1)], structures = [LiO]\<rparr>"

text \<open>
  A stand-in for the fitting primitive in the examples: like the library it refuses
  a fit of degree \<open>k\<close> through no more than \<open>k\<close> points; its spline is the zero function.
\<close>

definition zero_fit :: fitter where
  "zero_fit k xs ys = (if length xs \<le> k then None else Some (\<lambda>x. 0))"

definition trend5 :: EnergyTrend where
  "trend5 = \<lparr>energies = [2, 2, 2, 2, 2]\<rparr>"

text \<open>
  Vocabulary of the claims about the quantum: a dipole moved by an integer number of
  lattice lengths in each direction.
\<close>

fun shift_by_quanta :: "Lattice \<Rightarrow> int \<times> int \<times> int \<Rightarrow> vec3 \<Rightarrow> vec3" where
  "shift_by_quanta l (n1, n2, n3) p =
     vadd p (vmul (of_int n1, of_int n2, of_int n3) (lengths l))"

text \<open>
  Vocabulary of the claims about the first step: the lattice and the total dipole the
  search at a step works with, in the units asked for, and a lattice whose basis
  vectors are orthogonal to one another.
\<close>

definition step_lattice :: "bool \<Rightarrow> Structure \<Rightarrow> Lattice" where
  "step_lattice convert s =
     (if convert then rescale_lattice (1 / volume (lattice s) * (e_to_muC * cm2_to_A2)) (lattice s)
      else lattice s)"

definition step_dipole :: "bool \<Rightarrow> Structure \<Rightarrow> vec3 \<Rightarrow> vec3" where
  "step_dipole convert s p =
     (if convert then vscale (1 / volume (lattice s) * (e_to_muC * cm2_to_A2)) p else p)"

definition orthogonal_lattice :: "Lattice \<Rightarrow> bool" where
  "orthogonal_lattice l =
     (case matrix l of (va, vb, vc) \<Rightarrow> dot va vb = 0 \<and> dot vb vc = 0 \<and> dot vc va = 0)"

text \<open>
  A cell with the edges 10, 25 and 10 and an angle of about 16 degrees between the
  first two, and a one-step track on it whose total dipole is one quantum along the
  first direction and a quarter of a quantum along the second.
\<close>

definition skew_cell :: Lattice where
  "skew_cell = \<lparr>matrix = ((10, 0, 0), (24, 7, 0), (0, 0, 10))\<rparr>"

definition skew_track :: Polarization where
  "skew_track = \<lparr>p_elecs = [(10, 25 / 4, 0)], p_ions = [(0, 0, 0)],
                  structures = [\<lparr>lattice = skew_cell, site_list = []\<rparr>]\<rparr>"

text \<open>Tracks on the unit cell: one step, and two steps.\<close>

definition unit_track :: Polarization where
  "unit_track = \<lparr>p_elecs = [(1, 1 / 4, 0)], p_ions = [(0, 0, 0)], structures = [LiO]\<rparr>"

definition two_steps :: Polarization where
  "two_steps = \<lparr>p_elecs = [(0, 0, 0), (0, 0, 1 / 4)], p_ions = [(0, 0, 0), (0, 0, 1 / 5)],
                 structures = [LiO, LiO]\<rparr>"

text \<open>A stand-in fitting primitive that refuses a column of zeros.\<close>

definition nonzero_fit :: fitter where
  "nonzero_fit k xs ys = (if list_all (\<lambda>y. y = 0) ys then None else Some (\<lambda>x. 0))"

text \<open>
  A cell of volume 1602.1766, for which the unit factor is \<open>-1\<close>, and a one-step track
  on it.
\<close>

definition long_cell :: Lattice where
  "long_cell = \<lparr>matrix = ((8010883 / 5000, 0, 0), (0, 1, 0), (0, 0, 1))\<rparr>"

definition long_track :: Polarization where
  "long_track = \<lparr>p_elecs = [(0, 1 / 4, 0)], p_ions = [(0, 0, 0)],
                  structures = [\<lparr>lattice = long_cell, site_list = []\<rparr>]\<rparr>"

text \<open>A one-step track on the skew cell whose total dipole is one quantum and nothing else.\<close>

definition skew_quantum_track :: Polarization where
  "skew_quantum_track = \<lparr>p_elecs = [(10, 0, 0)], p_ions = [(0, 0, 0)],
                          structures = [\<lparr>lattice = skew_cell, site_list = []\<rparr>]\<rparr>"

section \<open>Properties\<close>

subsection \<open>Lattice facts\<close>

lemma vnorm_nonneg: "0 \<le> vnorm v"
  by (simp add: vnorm_def norm2_def) (cases v, simp)

lemma norm2_planar:
  fixes a s1 c1 :: real
  assumes "s1 * s1 + c1 * c1 = 1"
  shows "norm2 (a * s1, 0, a * c1) = a * a"
proof -
  have "norm2 (a * s1, 0, a * c1) = a * a * (s1 * s1 + c1 * c1)"
    by (simp add: norm2_def algebra_simps)
  then show ?thesis by (simp add: assms)
qed

lemma norm2_spherical:
  fixes b s1 c1 s2 c2 :: real
  assumes "s1 * s1 + c1 * c1 = 1" and "s2 * s2 + c2 * c2 = 1"
  shows "norm2 (- b * s1 * c2, b * s1 * s2, b * c1) = b * b"
proof -
  have "norm2 (- b * s1 * c2, b * s1 * s2, b * c1)
      = b * b * (s1 * s1 * (s2 * s2 + c2 * c2) + c1 * c1)"
    by (simp add: norm2_def algebra_simps)
  then show ?thesis by (simp add: assms)
qed

lemma sin_cos_unit: "sin t * sin t + cos t * cos t = (1::real)"
  using sin_cos_squared_add [of t] by (simp add: power2_eq_square)

lemma vnorm_planar: "vnorm (a * sin t, 0, a * cos t) = \<bar>a\<bar>"
  unfolding vnorm_def by (subst norm2_planar [OF sin_cos_unit]) simp

lemma vnorm_spherical:
  "vnorm (- b * sin s * cos t, b * sin s * sin t, b * cos s) = \<bar>b\<bar>"
  unfolding vnorm_def by (subst norm2_spherical [OF sin_cos_unit sin_cos_unit]) simp

lemma vnorm_axis: "vnorm (0, 0, c) = \<bar>c\<bar>"
  by (simp add: vnorm_def norm2_def)

lemma lengths_from_lengths_and_angles:
  "lengths (from_lengths_and_angles (a, b, c) ang) = (\<bar>a\<bar>, \<bar>b\<bar>, \<bar>c\<bar>)"
  by (cases ang)
     (simp only: from_lengths_and_angles_def lengths_def Let_def vnorm_planar vnorm_spherical
        vnorm_axis prod.case Lattice.simps)

lemma lengths_rescale_lattice:
  "lengths (rescale_lattice u lat) =
     (case lengths lat of (a, b, c) \<Rightarrow> (\<bar>a * u\<bar>, \<bar>b * u\<bar>, \<bar>c * u\<bar>))"
  by (cases "lengths lat")
     (simp add: rescale_lattice_def lengths_and_angles_def lengths_from_lengths_and_angles)

lemma lengths_unit_cell: "lengths unit_cell = (1, 1, 1)"
  by (simp add: lengths_def unit_cell_def vnorm_def norm2_def)

lemma volume_unit_cell: "volume unit_cell = 1"
  by (simp add: volume_def det3_def unit_cell_def)

subsection \<open>Construction\<close>

text \<open>
  C3: constructing a Polarization fails with a validation error (\<open>ValueError\<close>) when
  the three sequences do not all have the same length, and succeeds for every input of
  equal lengths, the one of length 1 included; the instance holds the three sequences
  as given, nothing is cut off.
\<close>

theorem Polarization_init_lengths:
  "(length pes \<noteq> length pis \<or> length pes \<noteq> length ss \<longrightarrow>
      Polarization_init pes pis ss = Inl ValueError)
   \<and> (length pes = length pis \<and> length pes = length ss \<longrightarrow>
      (\<exists>self. Polarization_init pes pis ss = Inr self
         \<and> p_elecs self = pes \<and> p_ions self = pis \<and> structures self = ss))"
  by (simp add: Polarization_init_def)

theorem Polarization_init_lengths_witness:
  "Polarization_init [(0, 0, 1)] [(0, 0, 2)] [LiO]
     = Inr \<lparr>p_elecs = [(0, 0, 1)], p_ions = [(0, 0, 2)], structures = [LiO]\<rparr>
   \<and> Polarization_init [(0, 0, 1), (0, 0, 3)] [(0, 0, 2)] [LiO] = Inl ValueError"
  using Polarization_init_lengths [of "[(0, 0, 1)]" "[(0, 0, 2)]" "[LiO]"]
        Polarization_init_lengths [of "[(0, 0, 1), (0, 0, 3)]" "[(0, 0, 2)]" "[LiO]"]
  by auto

subsection \<open>Ionic dipole\<close>

lemma tot_ionic_loop_eq:
  "tot_ionic_loop st zd ss acc =
     (if \<forall>s \<in> set ss. zd (specie s) \<noteq> None
      then Inr (acc @ map (\<lambda>s. calc_ionic s st (the (zd (specie s)))) ss)
      else Inl KeyError)"
  by (induction ss arbitrary: acc) (auto split: option.splits)

lemma foldl_vadd_components:
  "foldl vadd acc rows =
     (fst acc + sum_list (map fst rows),
      fst (snd acc) + sum_list (map (\<lambda>v. fst (snd v)) rows),
      snd (snd acc) + sum_list (map (\<lambda>v. snd (snd v)) rows))"
proof (induction rows arbitrary: acc)
  case Nil
  show ?case by simp
next
  case (Cons r rows)
  obtain a b c where acc: "acc = (a, b, c)" by (cases acc) auto
  obtain x y z where r: "r = (x, y, z)" by (cases r) auto
  show ?case unfolding acc r by (simp add: Cons.IH)
qed

lemma np_sum_axis0_components:
  "np_sum_axis0 rows =
     (sum_list (map fst rows), sum_list (map (\<lambda>v. fst (snd v)) rows),
      sum_list (map (\<lambda>v. snd (snd v)) rows))"
  by (simp add: np_sum_axis0_def vzero_def foldl_vadd_components)

lemma calc_ionic_components:
  "calc_ionic site structure zval =
     (case (lengths (lattice structure), frac_coords site) of
        ((la, lb, lc), (f1, f2, f3)) \<Rightarrow> (- la * f1 * zval, - lb * f2 * zval, - lc * f3 * zval))"
  by (cases "lengths (lattice structure)"; cases "frac_coords site")
     (simp add: calc_ionic_def lengths_and_angles_def)

text \<open>
  C4: \<open>calc_ionic\<close> returns, in each lattice direction, minus the lattice length times
  the fractional coordinate times \<open>zval\<close>. \<open>get_total_ionic_dipole\<close> returns the sum of
  \<open>calc_ionic\<close> over the sites, each with the \<open>zval\<close> of its species, when every species
  of the structure is a key of the dictionary, and fails with \<open>KeyError\<close> otherwise.
\<close>

theorem calc_ionic_total_dipole:
  "calc_ionic site structure zval =
     (case (lengths (lattice structure), frac_coords site) of
        ((la, lb, lc), (f1, f2, f3)) \<Rightarrow> (- la * f1 * zval, - lb * f2 * zval, - lc * f3 * zval))
   \<and> get_total_ionic_dipole structure zval_dict =
     (if \<forall>s \<in> set (site_list structure). specie s \<in> dom zval_dict
      then Inr (let per_site = map (\<lambda>s. calc_ionic s structure (the (zval_dict (specie s))))
                                  (site_list structure)
                in (sum_list (map fst per_site),
                    sum_list (map (\<lambda>v. fst (snd v)) per_site),
                    sum_list (map (\<lambda>v. snd (snd v)) per_site)))
      else Inl KeyError)"
proof
  show "calc_ionic site structure zval =
     (case (lengths (lattice structure), frac_coords site) of
        ((la, lb, lc), (f1, f2, f3)) \<Rightarrow> (- la * f1 * zval, - lb * f2 * zval, - lc * f3 * zval))"
    by (rule calc_ionic_components)
next
  have dom_iff: "(\<forall>s \<in> set (site_list structure). specie s \<in> dom zval_dict) \<longleftrightarrow>
      (\<forall>s \<in> set (site_list structure). zval_dict (specie s) \<noteq> None)"
    by (auto simp: dom_def)
  show "get_total_ionic_dipole structure zval_dict =
     (if \<forall>s \<in> set (site_list structure). specie s \<in> dom zval_dict
      then Inr (let per_site = map (\<lambda>s. calc_ionic s structure (the (zval_dict (specie s))))
                                  (site_list structure)
                in (sum_list (map fst per_site),
                    sum_list (map (\<lambda>v. fst (snd v)) per_site),
                    sum_list (map (\<lambda>v. snd (snd v)) per_site)))
      else Inl KeyError)"
    unfolding dom_iff get_total_ionic_dipole_def tot_ionic_loop_eq
    by (simp add: np_sum_axis0_components Let_def)
qed

theorem calc_ionic_total_dipole_witness:
  "get_total_ionic_dipole LiO [''Li'' \<mapsto> 1, ''O'' \<mapsto> 6] = Inr (- 3, - 3, - 3 / 2)
   \<and> get_total_ionic_dipole LiO [''Li'' \<mapsto> 1] = Inl KeyError"
  using calc_ionic_total_dipole [of "\<lparr>frac_coords = (0, 0, 0), specie = ''Li''\<rparr>" LiO 1 "[''Li'' \<mapsto> 1, ''O'' \<mapsto> 6]"]
        calc_ionic_total_dipole [of "\<lparr>frac_coords = (0, 0, 0), specie = ''Li''\<rparr>" LiO 1 "[''Li'' \<mapsto> 1]"]
  by (simp add: LiO_def calc_ionic_components lengths_unit_cell)

subsection \<open>Unit conversion\<close>

lemma index_update_loop:
  "n \<le> length ls \<Longrightarrow>
   fold (\<lambda>i xs. xs[i := f i (xs ! i)]) [0..<n] ls = map (\<lambda>i. f i (ls ! i)) [0..<n] @ drop n ls"
proof (induction n)
  case 0
  show ?case by simp
next
  case (Suc n)
  then have n: "n < length ls" by simp
  have "fold (\<lambda>i xs. xs[i := f i (xs ! i)]) [0..<Suc n] ls
      = (map (\<lambda>i. f i (ls ! i)) [0..<n] @ drop n ls)[n := f n ((map (\<lambda>i. f i (ls ! i)) [0..<n] @ drop n ls) ! n)]"
    using Suc by simp
  also have "\<dots> = map (\<lambda>i. f i (ls ! i)) [0..<n] @ (drop n ls)[0 := f n (ls ! n)]"
    using n by (simp add: list_update_append nth_append)
  also have "(drop n ls)[0 := f n (ls ! n)] = f n (ls ! n) # drop (Suc n) ls"
    using n by (simp add: Cons_nth_drop_Suc [symmetric])
  finally show ?case by simp
qed

lemma adjust_lattices_eq:
  assumes "length units = length lattices"
  shows "adjust_lattices units (length lattices) lattices = map2 rescale_lattice units lattices"
proof -
  have "adjust_lattices units (length lattices) lattices
      = map (\<lambda>i. rescale_lattice (units ! i) (lattices ! i)) [0..<length lattices]"
    unfolding adjust_lattices_def by (subst index_update_loop) simp_all
  also have "\<dots> = map2 rescale_lattice units lattices"
    using assms by (auto intro!: nth_equalityI)
  finally show ?thesis .
qed

lemma conversion_units_ok:
  "0 \<notin> set volumes \<Longrightarrow>
   conversion_units volumes = Inr (map (\<lambda>v. 1 / v * (e_to_muC * cm2_to_A2)) volumes)"
  by (simp add: conversion_units_def)

lemma conversion_units_length:
  "conversion_units volumes = Inr units \<Longrightarrow> length units = length volumes"
  by (auto simp: conversion_units_def split: if_splits)

text \<open>
  C5: without conversion \<open>get_pelecs_and_pions\<close> returns the stored dipoles unchanged.
  With conversion, on an instance whose sequences have equal lengths and whose cells
  have a volume, row \<open>i\<close> of either matrix is the stored row times
  \<open>scale[i] = (-1.6021766e-13 * 1e16) / volume[i]\<close>, and dividing the converted row by
  \<open>scale[i]\<close> gives the stored row back.
\<close>

theorem get_pelecs_and_pions_scale:
  "fst (get_pelecs_and_pions False self) = Inr (p_elecs self, p_ions self)
   \<and> (length (p_elecs self) = length (structures self)
        \<and> length (p_ions self) = length (structures self)
        \<and> (\<forall>s \<in> set (structures self). volume (lattice s) \<noteq> 0) \<longrightarrow>
      (let L = length (structures self);
           scale = (\<lambda>i. (- (16021766 / 10 ^ 20) * 10 ^ 16) / volume (lattice (structures self ! i)))
       in fst (get_pelecs_and_pions True self)
            = Inr (map (\<lambda>i. vscale (scale i) (p_elecs self ! i)) [0..<L],
                   map (\<lambda>i. vscale (scale i) (p_ions self ! i)) [0..<L])
          \<and> (\<forall>i < L.
                vdiv (vscale (scale i) (p_elecs self ! i)) (scale i, scale i, scale i)
                  = p_elecs self ! i
              \<and> vdiv (vscale (scale i) (p_ions self ! i)) (scale i, scale i, scale i)
                  = p_ions self ! i)))"
proof (intro conjI impI)
  show "fst (get_pelecs_and_pions False self) = Inr (p_elecs self, p_ions self)"
    by (simp add: get_pelecs_and_pions_def)
next
  assume a: "length (p_elecs self) = length (structures self)
        \<and> length (p_ions self) = length (structures self)
        \<and> (\<forall>s \<in> set (structures self). volume (lattice s) \<noteq> 0)"
  define vols where "vols = map (\<lambda>s. volume (lattice s)) (structures self)"
  define units where "units = map (\<lambda>v. 1 / v * (e_to_muC * cm2_to_A2)) vols"
  define scale where
    "scale = (\<lambda>i. (- (16021766 / 10 ^ 20) * 10 ^ 16) / volume (lattice (structures self ! i)))"
  have nz: "0 \<notin> set vols" using a by (auto simp: vols_def)
  have cu: "conversion_units vols = Inr units"
    unfolding units_def by (rule conversion_units_ok [OF nz])
  have res: "fst (get_pelecs_and_pions True self)
      = Inr (map2 vscale units (p_elecs self), map2 vscale units (p_ions self))"
    using cu by (simp add: get_pelecs_and_pions_def vols_def [symmetric])
  have u: "units ! i = scale i" if "i < length (structures self)" for i
    using that by (simp add: units_def vols_def scale_def e_to_muC_def cm2_to_A2_def)
  have len: "length units = length (structures self)"
    by (simp add: units_def vols_def)
  have rows: "map2 vscale units ps = map (\<lambda>i. vscale (scale i) (ps ! i)) [0..<length (structures self)]"
    if "length ps = length (structures self)" for ps
    using that len u by (intro nth_equalityI) simp_all
  have inv: "vdiv (vscale (scale i) p) (scale i, scale i, scale i) = p"
    if i: "i < length (structures self)" for i p
  proof -
    have "volume (lattice (structures self ! i)) \<noteq> 0" using a i by simp
    then have "scale i \<noteq> 0" by (simp add: scale_def)
    then show ?thesis by (cases p) simp
  qed
  show "let L = length (structures self);
           scale = (\<lambda>i. (- (16021766 / 10 ^ 20) * 10 ^ 16) / volume (lattice (structures self ! i)))
       in fst (get_pelecs_and_pions True self)
            = Inr (map (\<lambda>i. vscale (scale i) (p_elecs self ! i)) [0..<L],
                   map (\<lambda>i. vscale (scale i) (p_ions self ! i)) [0..<L])
          \<and> (\<forall>i < L.
                vdiv (vscale (scale i) (p_elecs self ! i)) (scale i, scale i, scale i)
                  = p_elecs self ! i
              \<and> vdiv (vscale (scale i) (p_ions self ! i)) (scale i, scale i, scale i)
                  = p_ions self ! i)"
    unfolding Let_def scale_def [symmetric]
    using res rows [of "p_elecs self"] rows [of "p_ions self"] a inv by simp
qed

theorem get_pelecs_and_pions_scale_witness:
  "fst (get_pelecs_and_pions True T1)
     = Inr ([(- 8010883 / 5000, - 8010883 / 2500, - 24032649 / 5000)], [(0, 0, - 8010883 / 5000)])"
  using get_pelecs_and_pions_scale [of T1]
  by (simp add: T1_def LiO_def volume_unit_cell Let_def)

text \<open>
  C6: \<open>get_lattice_quanta\<close> returns one row per structure. Without conversion the row
  holds the lattice lengths; with conversion each length is multiplied by the
  structure's own factor \<open>(-1.6021766e-13 * 1e16) / volume\<close> and the row holds the
  magnitudes. Every entry is non-negative in both modes.
\<close>

theorem get_lattice_quanta_magnitude:
  "fst (get_lattice_quanta False self) = Inr (map (\<lambda>s. lengths (lattice s)) (structures self))
   \<and> ((\<forall>s \<in> set (structures self). volume (lattice s) \<noteq> 0) \<longrightarrow>
        fst (get_lattice_quanta True self) =
          Inr (map (\<lambda>s. let scale = (- (16021766 / 10 ^ 20) * 10 ^ 16) / volume (lattice s)
                        in case lengths (lattice s) of
                             (a, b, c) \<Rightarrow> (\<bar>a * scale\<bar>, \<bar>b * scale\<bar>, \<bar>c * scale\<bar>))
                 (structures self)))
   \<and> (\<forall>quanta. fst (get_lattice_quanta convert self) = Inr quanta \<longrightarrow>
        length quanta = length (structures self)
        \<and> (\<forall>q \<in> set quanta. case q of (qa, qb, qc) \<Rightarrow> 0 \<le> qa \<and> 0 \<le> qb \<and> 0 \<le> qc))"
proof (intro conjI impI allI)
  show "fst (get_lattice_quanta False self) = Inr (map (\<lambda>s. lengths (lattice s)) (structures self))"
    by (simp add: get_lattice_quanta_def lengths_and_angles_def comp_def)
next
  assume a: "\<forall>s \<in> set (structures self). volume (lattice s) \<noteq> 0"
  define lats where "lats = map lattice (structures self)"
  define units where "units = map (\<lambda>v. 1 / v * (e_to_muC * cm2_to_A2)) (map volume lats)"
  have cu: "conversion_units (map volume lats) = Inr units"
    unfolding units_def using a by (intro conversion_units_ok) (auto simp: lats_def)
  have adj: "adjust_lattices units (length (structures self)) lats = map2 rescale_lattice units lats"
    using adjust_lattices_eq [of units lats] by (simp add: units_def lats_def)
  have "fst (get_lattice_quanta True self) = Inr (map lengths (map2 rescale_lattice units lats))"
    using cu adj
    by (simp add: get_lattice_quanta_def lats_def [symmetric] lengths_and_angles_def comp_def
        del: map_map)
  also have "map lengths (map2 rescale_lattice units lats)
      = map (\<lambda>s. let scale = (- (16021766 / 10 ^ 20) * 10 ^ 16) / volume (lattice s)
                        in case lengths (lattice s) of
                             (a, b, c) \<Rightarrow> (\<bar>a * scale\<bar>, \<bar>b * scale\<bar>, \<bar>c * scale\<bar>))
                 (structures self)"
    by (rule nth_equalityI)
       (simp_all add: units_def lats_def lengths_rescale_lattice e_to_muC_def cm2_to_A2_def Let_def
          mult.commute)
  finally show "fst (get_lattice_quanta True self) =
          Inr (map (\<lambda>s. let scale = (- (16021766 / 10 ^ 20) * 10 ^ 16) / volume (lattice s)
                        in case lengths (lattice s) of
                             (a, b, c) \<Rightarrow> (\<bar>a * scale\<bar>, \<bar>b * scale\<bar>, \<bar>c * scale\<bar>))
                 (structures self))" .
next
  fix quanta
  assume r: "fst (get_lattice_quanta convert self) = Inr quanta"
  have "\<exists>ls. quanta = map lengths ls \<and> length ls = length (structures self)"
  proof (cases convert)
    case False
    then show ?thesis using r
      by (intro exI [of _ "map lattice (structures self)"])
         (auto simp: get_lattice_quanta_def lengths_and_angles_def comp_def)
  next
    case True
    then obtain units where cu: "conversion_units (map volume (map lattice (structures self))) = Inr units"
      using r by (auto simp: get_lattice_quanta_def Let_def split: sum.splits)
    have len: "length units = length (map lattice (structures self))"
      using conversion_units_length [OF cu] by simp
    have "adjust_lattices units (length (structures self)) (map lattice (structures self))
        = map2 rescale_lattice units (map lattice (structures self))"
      using adjust_lattices_eq [OF len] by simp
    then show ?thesis using r True cu len
      by (intro exI [of _ "map2 rescale_lattice units (map lattice (structures self))"])
         (auto simp: get_lattice_quanta_def Let_def lengths_and_angles_def comp_def)
  qed
  then obtain ls where q: "quanta = map lengths ls" and l: "length ls = length (structures self)"
    by blast
  show "length quanta = length (structures self)" using q l by simp
  show "\<forall>q \<in> set quanta. case q of (qa, qb, qc) \<Rightarrow> 0 \<le> qa \<and> 0 \<le> qb \<and> 0 \<le> qc"
    unfolding q by (auto simp: lengths_def vnorm_nonneg split: prod.splits)
qed

theorem get_lattice_quanta_magnitude_witness:
  "fst (get_lattice_quanta True T1) = Inr [(8010883 / 5000, 8010883 / 5000, 8010883 / 5000)]
   \<and> fst (get_lattice_quanta False T1) = Inr [(1, 1, 1)]"
  using get_lattice_quanta_magnitude [of T1 True]
  by (simp add: T1_def LiO_def volume_unit_cell lengths_unit_cell Let_def)

subsection \<open>Energy trend\<close>

lemma diff_by_index:
  "length ys = L \<Longrightarrow>
   map2 (-) (map sp (py_range L)) ys = map (\<lambda>i. sp (real i) - ys ! i) [0..<L]"
  by (intro nth_equalityI) (simp_all add: py_range_def)

lemma sum_squares_nonneg: "0 \<le> sum_list (map (\<lambda>d. d * d) (ds :: real list))"
  by (induction ds) simp_all

lemma rms_nonneg: "0 \<le> rms diff L"
  by (simp add: rms_def sum_squares_nonneg)

text \<open>
  C8: when the spline cannot be built, \<open>EnergyTrend.smoothness\<close> returns \<open>None\<close> and
  prints the line \<open>Energy spline failed.\<close>; the exception of the fit does not reach the
  caller. When the spline is built (and there are energies), it returns the root of
  the mean of the squared differences between spline and energies, which is not
  negative.
\<close>

theorem energy_smoothness_soft_failure:
  "(fit 4 (py_range (length (energies self))) (energies self) = None \<longrightarrow>
      fst (energy_smoothness fit self) = Inr (None, [''Energy spline failed.'']))
   \<and> (\<forall>sp. fit 4 (py_range (length (energies self))) (energies self) = Some sp
          \<and> energies self \<noteq> [] \<longrightarrow>
        (let L = length (energies self);
             r = sqrt (sum_list (map (\<lambda>i. (sp (real i) - energies self ! i) *
                                          (sp (real i) - energies self ! i)) [0..<L]) / real L)
         in fst (energy_smoothness fit self) = Inr (Some r, []) \<and> 0 \<le> r))"
proof (intro conjI impI allI)
  assume "fit 4 (py_range (length (energies self))) (energies self) = None"
  then show "fst (energy_smoothness fit self) = Inr (None, [''Energy spline failed.''])"
    by (simp add: energy_smoothness_def spline_def)
next
  fix sp
  assume a: "fit 4 (py_range (length (energies self))) (energies self) = Some sp
          \<and> energies self \<noteq> []"
  have "fst (energy_smoothness fit self)
      = Inr (Some (rms (map2 (-) (map sp (py_range (length (energies self)))) (energies self))
                       (length (energies self))), [])"
    using a by (simp add: energy_smoothness_def spline_def Let_def)
  moreover have "rms (map2 (-) (map sp (py_range (length (energies self)))) (energies self))
                       (length (energies self))
      = sqrt (sum_list (map (\<lambda>i. (sp (real i) - energies self ! i) *
                                          (sp (real i) - energies self ! i)) [0..<length (energies self)])
              / real (length (energies self)))"
    by (simp add: rms_def diff_by_index comp_def)
  ultimately show "let L = length (energies self);
             r = sqrt (sum_list (map (\<lambda>i. (sp (real i) - energies self ! i) *
                                          (sp (real i) - energies self ! i)) [0..<L]) / real L)
         in fst (energy_smoothness fit self) = Inr (Some r, []) \<and> 0 \<le> r"
    unfolding Let_def using rms_nonneg [of "map2 (-) (map sp (py_range (length (energies self)))) (energies self)" "length (energies self)"]
    by simp
qed

lemma upt5: "[0..<5] = [0, 1, 2, 3, 4]"
  by (simp add: upt_rec)

theorem energy_smoothness_soft_failure_witness:
  "fst (energy_smoothness zero_fit trend5) = Inr (Some 2, [])
   \<and> fst (energy_smoothness zero_fit \<lparr>energies = [1, 2]\<rparr>) = Inr (None, [''Energy spline failed.''])"
  using energy_smoothness_soft_failure [of zero_fit trend5] energy_smoothness_soft_failure [of zero_fit "\<lparr>energies = [1, 2]\<rparr>"]
  by (simp add: zero_fit_def trend5_def py_range_def upt5)

text \<open>
  C10: \<open>EnergyTrend.__init__\<close> checks nothing and cannot fail; any list of energies, the
  empty one and a single value included, is stored as it is. That a fit is not possible
  shows only when a method is called: \<open>spline\<close> and \<open>max_spline_jump\<close> raise,
  \<open>smoothness\<close> and \<open>endpoints_minima\<close> print a line and return \<open>None\<close>.
\<close>

theorem EnergyTrend_init_unchecked:
  "(\<exists>self. EnergyTrend_init es = Inr self \<and> energies self = es)
   \<and> (fit 4 (py_range (length es)) es = None \<longrightarrow>
        (\<forall>self. EnergyTrend_init es = Inr self \<longrightarrow>
           fst (spline fit self) = Inl SplineError
         \<and> fst (max_spline_jump fit self) = Inl SplineError
         \<and> fst (energy_smoothness fit self) = Inr (None, [''Energy spline failed.''])
         \<and> fst (endpoints_minima fit derivative slope_cutoff self)
             = Inr (None, [''Energy spline failed.''])))"
  by (auto simp: EnergyTrend_init_def spline_def max_spline_jump_def energy_smoothness_def
      endpoints_minima_def)

theorem EnergyTrend_init_unchecked_witness:
  "EnergyTrend_init [] = Inr \<lparr>energies = []\<rparr>
   \<and> EnergyTrend_init [1] = Inr \<lparr>energies = [1]\<rparr>
   \<and> fst (spline zero_fit \<lparr>energies = []\<rparr>) = Inl SplineError
   \<and> fst (max_spline_jump zero_fit \<lparr>energies = [1]\<rparr>) = Inl SplineError"
  using EnergyTrend_init_unchecked [of "[]" zero_fit id 0] EnergyTrend_init_unchecked [of "[1]" zero_fit id 0]
  by (simp add: EnergyTrend_init_def zero_fit_def py_range_def)

subsection \<open>No method writes to the instance\<close>

lemma get_pelecs_and_pions_self: "snd (get_pelecs_and_pions c self) = self"
  by (simp add: get_pelecs_and_pions_def Let_def split: sum.splits)

lemma get_same_branch_polarization_data_self:
  "snd (get_same_branch_polarization_data c self) = self"
proof -
  obtain r where r: "get_pelecs_and_pions False self = (r, self)"
    using get_pelecs_and_pions_self [of False self] by (cases "get_pelecs_and_pions False self") simp
  show ?thesis
    unfolding get_same_branch_polarization_data_def r
    by (simp add: Let_def split: sum.splits prod.splits)
qed

lemma get_lattice_quanta_self: "snd (get_lattice_quanta c self) = self"
  by (simp add: get_lattice_quanta_def Let_def split: sum.splits)

lemma get_polarization_change_self: "snd (get_polarization_change self) = self"
proof -
  obtain r where r: "get_same_branch_polarization_data True self = (r, self)"
    using get_same_branch_polarization_data_self [of True self]
    by (cases "get_same_branch_polarization_data True self") simp
  show ?thesis
    unfolding get_polarization_change_def r by (simp split: sum.splits)
qed

lemma get_polarization_change_norm_self: "snd (get_polarization_change_norm self) = self"
proof -
  obtain r where r: "get_polarization_change self = (r, self)"
    using get_polarization_change_self [of self] by (cases "get_polarization_change self") simp
  show ?thesis
    unfolding get_polarization_change_norm_def r
    by (simp add: Let_def split: sum.splits prod.splits)
qed

lemma same_branch_splines_self: "snd (same_branch_splines fit self) = self"
proof -
  obtain r where r: "get_same_branch_polarization_data True self = (r, self)"
    using get_same_branch_polarization_data_self [of True self]
    by (cases "get_same_branch_polarization_data True self") simp
  show ?thesis
    unfolding same_branch_splines_def r by (simp add: Let_def split: sum.splits)
qed

lemma max_spline_jumps_self: "snd (max_spline_jumps fit self) = self"
proof -
  obtain r where r: "get_same_branch_polarization_data True self = (r, self)"
    using get_same_branch_polarization_data_self [of True self]
    by (cases "get_same_branch_polarization_data True self") simp
  obtain q where q: "same_branch_splines fit self = (q, self)"
    using same_branch_splines_self [of fit self] by (cases "same_branch_splines fit self") simp
  show ?thesis
    unfolding max_spline_jumps_def r by (simp add: q split: sum.splits prod.splits)
qed

lemma smoothness_self: "snd (smoothness fit self) = self"
proof -
  obtain r where r: "get_same_branch_polarization_data True self = (r, self)"
    using get_same_branch_polarization_data_self [of True self]
    by (cases "get_same_branch_polarization_data True self") simp
  obtain q where q: "same_branch_splines fit self = (q, self)"
    using same_branch_splines_self [of fit self] by (cases "same_branch_splines fit self") simp
  show ?thesis
    unfolding smoothness_def r
    by (simp add: q Let_def split: sum.splits prod.splits option.splits)
qed

lemma spline_self: "snd (spline fit trend) = trend"
  by (simp add: spline_def split: option.splits)

lemma energy_smoothness_self: "snd (energy_smoothness fit trend) = trend"
  by (simp add: energy_smoothness_def spline_def Let_def split: option.splits)

lemma max_spline_jump_self: "snd (max_spline_jump fit trend) = trend"
  by (simp add: max_spline_jump_def spline_def split: option.splits)

lemma endpoints_minima_self: "snd (endpoints_minima fit derivative cutoff trend) = trend"
  by (simp add: endpoints_minima_def spline_def Let_def split: option.splits)

text \<open>
  C9: every public method of \<open>Polarization\<close> and of \<open>EnergyTrend\<close> leaves the instance
  as it found it (\<open>p_elecs\<close>, \<open>p_ions\<close>, \<open>structures\<close>, \<open>energies\<close>), and so a second call
  with the same arguments returns what the first call returned.
\<close>

theorem methods_leave_instance_unchanged:
  "snd (get_pelecs_and_pions c self) = self
   \<and> snd (get_same_branch_polarization_data c self) = self
   \<and> snd (get_lattice_quanta c self) = self
   \<and> snd (get_polarization_change self) = self
   \<and> snd (get_polarization_change_norm self) = self
   \<and> snd (same_branch_splines fit self) = self
   \<and> snd (max_spline_jumps fit self) = self
   \<and> snd (smoothness fit self) = self
   \<and> snd (spline fit trend) = trend
   \<and> snd (energy_smoothness fit trend) = trend
   \<and> snd (max_spline_jump fit trend) = trend
   \<and> snd (endpoints_minima fit derivative cutoff trend) = trend
   \<and> get_pelecs_and_pions c (snd (get_pelecs_and_pions c self)) = get_pelecs_and_pions c self
   \<and> get_same_branch_polarization_data c (snd (get_same_branch_polarization_data c self))
        = get_same_branch_polarization_data c self
   \<and> get_lattice_quanta c (snd (get_lattice_quanta c self)) = get_lattice_quanta c self
   \<and> get_polarization_change (snd (get_polarization_change self)) = get_polarization_change self
   \<and> get_polarization_change_norm (snd (get_polarization_change_norm self))
        = get_polarization_change_norm self
   \<and> same_branch_splines fit (snd (same_branch_splines fit self)) = same_branch_splines fit self
   \<and> max_spline_jumps fit (snd (max_spline_jumps fit self)) = max_spline_jumps fit self
   \<and> smoothness fit (snd (smoothness fit self)) = smoothness fit self
   \<and> spline fit (snd (spline fit trend)) = spline fit trend
   \<and> energy_smoothness fit (snd (energy_smoothness fit trend)) = energy_smoothness fit trend
   \<and> max_spline_jump fit (snd (max_spline_jump fit trend)) = max_spline_jump fit trend
   \<and> endpoints_minima fit derivative cutoff (snd (endpoints_minima fit derivative cutoff trend))
        = endpoints_minima fit derivative cutoff trend"
  by (simp only: get_pelecs_and_pions_self get_same_branch_polarization_data_self
      get_lattice_quanta_self get_polarization_change_self get_polarization_change_norm_self
      same_branch_splines_self max_spline_jumps_self smoothness_self spline_self
      energy_smoothness_self max_spline_jump_self endpoints_minima_self simp_thms)

subsection \<open>The nearest periodic image\<close>

lemma frac_shift: "frac (x + of_int k) = frac (x::real)"
  by (simp add: frac_def)

lemma frac3_shift_image: "frac3 (shift_image f k) = frac3 f"
  by (cases f; cases k) (simp add: frac_shift)

lemma get_nearest_site_shift:
  "get_nearest_site l coords (shift_image f k) = get_nearest_site l coords f"
  by (simp add: get_nearest_site_def frac3_shift_image)

lemma first_min_mem: "first_min key x ys \<in> set (x # ys)"
  by (induction ys arbitrary: x) (auto split: if_splits)

lemma first_min_le: "y \<in> set (x # ys) \<Longrightarrow> key (first_min key x ys) \<le> key y"
proof (induction ys arbitrary: x y)
  case Nil
  then show ?case by simp
next
  case (Cons z zs)
  have step: "key (first_min key (if key z < key x then z else x) zs) \<le> key w"
    if "w \<in> set ((if key z < key x then z else x) # zs)" for w
    using Cons.IH that by blast
  have a: "key (first_min key (if key z < key x then z else x) zs)
      \<le> key (if key z < key x then z else x)"
    by (rule step) simp
  consider "y = x" | "y = z" | "y \<in> set zs" using Cons.prems by auto
  then show ?case
  proof cases
    case 1
    then show ?thesis using a by (simp split: if_splits)
  next
    case 2
    then show ?thesis using a by (simp split: if_splits)
  next
    case 3
    then show ?thesis using step [of y] by simp
  qed
qed

lemma cauchy_schwarz3: "(dot u v)\<^sup>2 \<le> norm2 u * norm2 v"
proof -
  obtain u1 u2 u3 where u: "u = (u1, u2, u3)" by (cases u) auto
  obtain v1 v2 v3 where v: "v = (v1, v2, v3)" by (cases v) auto
  have "norm2 u * norm2 v - (dot u v)\<^sup>2
      = (u1 * v2 - u2 * v1)\<^sup>2 + (u2 * v3 - u3 * v2)\<^sup>2 + (u3 * v1 - u1 * v3)\<^sup>2"
    unfolding u v by (simp add: norm2_def power2_eq_square algebra_simps)
  moreover have "0 \<le> (u1 * v2 - u2 * v1)\<^sup>2 + (u2 * v3 - u3 * v2)\<^sup>2 + (u3 * v1 - u1 * v3)\<^sup>2"
    by simp
  ultimately show ?thesis by linarith
qed

lemma norm2_nonneg: "0 \<le> norm2 v"
  by (cases v) (simp add: norm2_def)

text \<open>The offset from the reference point, measured along the three plane normals.\<close>

lemma offset_along_normals:
  assumes "normals l = (n1, n2, n3)"
  shows "dot (vsub (get_cartesian_coords l (f1, f2, f3)) coords) n1
           = f1 * det3 (matrix l) - dot coords n1"
    and "dot (vsub (get_cartesian_coords l (f1, f2, f3)) coords) n2
           = f2 * det3 (matrix l) - dot coords n2"
    and "dot (vsub (get_cartesian_coords l (f1, f2, f3)) coords) n3
           = f3 * det3 (matrix l) - dot coords n3"
proof -
  obtain a1 a2 a3 b1 b2 b3 c1 c2 c3 where m: "matrix l = ((a1, a2, a3), (b1, b2, b3), (c1, c2, c3))"
    by (metis prod_cases3)
  obtain x y z where c: "coords = (x, y, z)" by (cases coords) auto
  have n: "n1 = cross (b1, b2, b3) (c1, c2, c3)" "n2 = cross (c1, c2, c3) (a1, a2, a3)"
    "n3 = cross (a1, a2, a3) (b1, b2, b3)"
    using assms by (simp_all add: normals_def m)
  show "dot (vsub (get_cartesian_coords l (f1, f2, f3)) coords) n1
           = f1 * det3 (matrix l) - dot coords n1"
    unfolding n c by (simp add: get_cartesian_coords_def m det3_def algebra_simps)
  show "dot (vsub (get_cartesian_coords l (f1, f2, f3)) coords) n2
           = f2 * det3 (matrix l) - dot coords n2"
    unfolding n c by (simp add: get_cartesian_coords_def m det3_def algebra_simps)
  show "dot (vsub (get_cartesian_coords l (f1, f2, f3)) coords) n3
           = f3 * det3 (matrix l) - dot coords n3"
    unfolding n c by (simp add: get_cartesian_coords_def m det3_def algebra_simps)
qed

lemma plane_bound:
  assumes "dot (vsub p coords) n = f * d - dot coords n" and "d \<noteq> 0"
  shows "(f - dot coords n / d)\<^sup>2 * (d * d) \<le> norm2 (vsub p coords) * norm2 n"
proof -
  have "(f - dot coords n / d) * d = f * d - dot coords n"
    using assms(2) by (simp add: left_diff_distrib)
  then have "(f - dot coords n / d) * d = dot (vsub p coords) n"
    using assms(1) by simp
  then have "((f - dot coords n / d) * d)\<^sup>2 = (dot (vsub p coords) n)\<^sup>2"
    by simp
  then have "(f - dot coords n / d)\<^sup>2 * (d * d) = (dot (vsub p coords) n)\<^sup>2"
    by (simp add: power_mult_distrib) (simp add: power2_eq_square)
  then show ?thesis using cauchy_schwarz3 [of "vsub p coords" n] by simp
qed

lemma window_radius_sqrt:
  assumes "window_radius x < \<bar>t\<bar>"
  shows "x < t\<^sup>2"
proof (cases "x \<le> 1")
  case True
  then have "1 < \<bar>t\<bar>" using assms by (simp add: window_radius_def)
  then have "1 < t\<^sup>2" by (metis abs_1 one_less_power power2_abs pos2)
  then show ?thesis using True by linarith
next
  case False
  then have x: "1 < x" "x < \<bar>t\<bar>" using assms by (simp_all add: window_radius_def)
  then have "x * x < \<bar>t\<bar> * \<bar>t\<bar>" by (intro mult_strict_mono) simp_all
  moreover have "x \<le> x * x" using x by simp
  ultimately show ?thesis by (simp add: power2_eq_square)
qed

lemma outside_window_farther:
  assumes out: "window_radius (D2 * N / (d * d)) < \<bar>t\<bar>"
    and d: "d \<noteq> 0"
    and bound: "t\<^sup>2 * (d * d) \<le> X * N"
    and N: "0 \<le> N"
  shows "D2 < X"
proof -
  have "0 < d\<^sup>2" using d by simp
  then have dd: "0 < d * d" by (simp add: power2_eq_square)
  have "D2 * N / (d * d) < t\<^sup>2" by (rule window_radius_sqrt [OF out])
  then have "D2 * N < t\<^sup>2 * (d * d)" using dd by (simp add: pos_divide_less_eq)
  then have lt: "D2 * N < X * N" using bound by linarith
  show ?thesis
  proof (rule ccontr)
    assume "\<not> D2 < X"
    then have "X \<le> D2" by simp
    then have "X * N \<le> D2 * N" using N by (rule mult_right_mono)
    then show False using lt by simp
  qed
qed

lemma in_index_range: "k \<in> set (index_range g f w) \<longleftrightarrow> \<bar>f + of_int k - g\<bar> \<le> w"
proof -
  have "k \<in> set (index_range g f w) \<longleftrightarrow> g - f - w \<le> of_int k \<and> of_int k \<le> g - f + w"
    by (simp add: index_range_def ceiling_le_iff le_floor_iff)
  then show ?thesis by (auto simp: abs_le_iff)
qed

lemma in_image_window:
  assumes "get_fractional_coords l coords = (g1, g2, g3)"
    and "window_radii l coords (f1, f2, f3) = (w1, w2, w3)"
  shows "(k1, k2, k3) \<in> set (image_window l coords (f1, f2, f3)) \<longleftrightarrow>
     \<bar>f1 + of_int k1 - g1\<bar> \<le> w1 \<and> \<bar>f2 + of_int k2 - g2\<bar> \<le> w2 \<and> \<bar>f3 + of_int k3 - g3\<bar> \<le> w3"
proof -
  have "(k1, k2, k3) \<in> set (image_window l coords (f1, f2, f3)) \<longleftrightarrow>
      k1 \<in> set (index_range g1 f1 w1) \<and> k2 \<in> set (index_range g2 f2 w2)
      \<and> k3 \<in> set (index_range g3 f3 w3)"
    by (auto simp: image_window_def assms)
  then show ?thesis by (simp only: in_index_range)
qed

lemma window_radius_ge_one: "1 \<le> window_radius x"
  by (simp add: window_radius_def)

lemma rounded_offset: "\<bar>f + of_int \<lfloor>g - f + 1 / 2\<rfloor> - g\<bar> \<le> (1::real)"
  by linarith

lemma rounded_image_in_window:
  "rounded_image l coords f0 \<in> set (image_window l coords f0)"
proof -
  obtain f1 f2 f3 where f: "f0 = (f1, f2, f3)" by (cases f0) auto
  obtain g1 g2 g3 where g: "get_fractional_coords l coords = (g1, g2, g3)"
    by (cases "get_fractional_coords l coords") auto
  obtain w1 w2 w3 where w: "window_radii l coords (f1, f2, f3) = (w1, w2, w3)"
    by (cases "window_radii l coords (f1, f2, f3)") auto
  have "1 \<le> w1" "1 \<le> w2" "1 \<le> w3"
    using w by (auto simp: window_radii_def Let_def window_radius_ge_one split: prod.splits)
  then show ?thesis
    unfolding f rounded_image_def g prod.case in_image_window [OF g w]
    using rounded_offset [of f1 g1] rounded_offset [of f2 g2] rounded_offset [of f3 g3]
    by linarith
qed

lemma outside_image_window_farther:
  assumes d: "det3 (matrix l) \<noteq> 0"
    and out: "k \<notin> set (image_window l coords f0)"
  shows "dist2 l coords (shift_image f0 (rounded_image l coords f0))
           < dist2 l coords (shift_image f0 k)"
proof -
  obtain f1 f2 f3 where f: "f0 = (f1, f2, f3)" by (cases f0) auto
  obtain k1 k2 k3 where k: "k = (k1, k2, k3)" by (cases k) auto
  obtain n1 n2 n3 where n: "normals l = (n1, n2, n3)" by (cases "normals l") auto
  define D2 where "D2 = dist2 l coords (shift_image f0 (rounded_image l coords f0))"
  define dd where "dd = det3 (matrix l) * det3 (matrix l)"
  have g: "get_fractional_coords l coords
      = (dot coords n1 / det3 (matrix l), dot coords n2 / det3 (matrix l),
         dot coords n3 / det3 (matrix l))"
    by (simp add: get_fractional_coords_def n)
  have w: "window_radii l coords (f1, f2, f3)
      = (window_radius (D2 * norm2 n1 / dd), window_radius (D2 * norm2 n2 / dd),
         window_radius (D2 * norm2 n3 / dd))"
    by (simp add: window_radii_def n D2_def dd_def f Let_def)
  let ?p = "get_cartesian_coords l (f1 + of_int k1, f2 + of_int k2, f3 + of_int k3)"
  have X: "dist2 l coords (shift_image f0 k) = norm2 (vsub ?p coords)"
    by (simp add: dist2_def f k)
  have b1: "(f1 + of_int k1 - dot coords n1 / det3 (matrix l))\<^sup>2 * dd
      \<le> norm2 (vsub ?p coords) * norm2 n1"
    unfolding dd_def by (rule plane_bound [OF offset_along_normals(1) [OF n] d])
  have b2: "(f2 + of_int k2 - dot coords n2 / det3 (matrix l))\<^sup>2 * dd
      \<le> norm2 (vsub ?p coords) * norm2 n2"
    unfolding dd_def by (rule plane_bound [OF offset_along_normals(2) [OF n] d])
  have b3: "(f3 + of_int k3 - dot coords n3 / det3 (matrix l))\<^sup>2 * dd
      \<le> norm2 (vsub ?p coords) * norm2 n3"
    unfolding dd_def by (rule plane_bound [OF offset_along_normals(3) [OF n] d])
  have "window_radius (D2 * norm2 n1 / dd) < \<bar>f1 + of_int k1 - dot coords n1 / det3 (matrix l)\<bar>
      \<or> window_radius (D2 * norm2 n2 / dd) < \<bar>f2 + of_int k2 - dot coords n2 / det3 (matrix l)\<bar>
      \<or> window_radius (D2 * norm2 n3 / dd) < \<bar>f3 + of_int k3 - dot coords n3 / det3 (matrix l)\<bar>"
    using out unfolding f k in_image_window [OF g w] by (simp add: not_le)
  then have "D2 < norm2 (vsub ?p coords)"
    using outside_window_farther [OF _ d, of D2 _ _ "norm2 (vsub ?p coords)"] b1 b2 b3
      norm2_nonneg
    unfolding dd_def by blast
  then show ?thesis unfolding X D2_def .
qed

text \<open>The search returns an image that is nearest among all images.\<close>

lemma shift_image_add:
  "shift_image (shift_image f k) m = shift_image f (case (k, m) of ((k1, k2, k3), (m1, m2, m3)) \<Rightarrow> (k1 + m1, k2 + m2, k3 + m3))"
  by (cases f; cases k; cases m) simp

lemma get_nearest_site_total:
  assumes "det3 (matrix l) \<noteq> 0"
  shows "\<exists>k. get_nearest_site l coords f = Inr (shift_image (frac3 f) k)
           \<and> (\<forall>m. dist2 l coords (shift_image (frac3 f) k) \<le> dist2 l coords (shift_image (frac3 f) m))"
proof -
  define f0 where "f0 = frac3 f"
  define key where "key = (\<lambda>k. dist2 l coords (shift_image f0 k))"
  have ne: "image_window l coords f0 \<noteq> []"
    using rounded_image_in_window [of l coords f0] by auto
  then obtain c cs where w: "image_window l coords f0 = c # cs"
    by (cases "image_window l coords f0") auto
  define best where "best = first_min key c cs"
  have res: "get_nearest_site l coords f = Inr (shift_image f0 best)"
    using assms by (simp add: get_nearest_site_def f0_def [symmetric] w best_def key_def)
  have least: "key best \<le> key m" for m
  proof (cases "m \<in> set (image_window l coords f0)")
    case True
    then show ?thesis unfolding best_def w by (rule first_min_le)
  next
    case False
    have "key best \<le> key (rounded_image l coords f0)"
      unfolding best_def using rounded_image_in_window [of l coords f0] w
      by (intro first_min_le) simp
    also have "\<dots> < key m"
      unfolding key_def by (rule outside_image_window_farther [OF assms False])
    finally show ?thesis by simp
  qed
  show ?thesis using res least unfolding key_def f0_def by blast
qed

lemma frac3_as_image: "\<exists>k. frac3 f = shift_image f k \<and> (\<exists>k'. f = shift_image (frac3 f) k')"
proof -
  obtain f1 f2 f3 where f: "f = (f1, f2, f3)" by (cases f) auto
  have "frac3 f = shift_image f (- \<lfloor>f1\<rfloor>, - \<lfloor>f2\<rfloor>, - \<lfloor>f3\<rfloor>)"
    by (simp add: f frac_def)
  moreover have "f = shift_image (frac3 f) (\<lfloor>f1\<rfloor>, \<lfloor>f2\<rfloor>, \<lfloor>f3\<rfloor>)"
    by (simp add: f frac_def)
  ultimately show ?thesis by blast
qed

lemma get_nearest_site_nearest:
  assumes "det3 (matrix l) \<noteq> 0"
  shows "\<exists>k. get_nearest_site l coords f = Inr (shift_image f k)
           \<and> (\<forall>m. dist2 l coords (shift_image f k) \<le> dist2 l coords (shift_image f m))"
proof -
  obtain k where k: "get_nearest_site l coords f = Inr (shift_image (frac3 f) k)"
    and least: "\<And>m. dist2 l coords (shift_image (frac3 f) k) \<le> dist2 l coords (shift_image (frac3 f) m)"
    using get_nearest_site_total [OF assms] by blast
  obtain a b where a: "frac3 f = shift_image f a" and b: "f = shift_image (frac3 f) b"
    using frac3_as_image by blast
  have img: "shift_image (frac3 f) k = shift_image f (case (a, k) of ((k1, k2, k3), (m1, m2, m3)) \<Rightarrow> (k1 + m1, k2 + m2, k3 + m3))"
    by (subst a) (simp only: shift_image_add)
  have "dist2 l coords (shift_image (frac3 f) k) \<le> dist2 l coords (shift_image f m)" for m
  proof -
    have "shift_image f m = shift_image (frac3 f) (case (b, m) of ((k1, k2, k3), (m1, m2, m3)) \<Rightarrow> (k1 + m1, k2 + m2, k3 + m3))"
      by (subst b) (simp only: shift_image_add)
    then show ?thesis using least by simp
  qed
  then show ?thesis using k img by metis
qed

subsection \<open>Quantum shifts\<close>

lemma vnorm_zero_iff: "vnorm v = 0 \<longleftrightarrow> v = (0, 0, 0)"
proof -
  obtain x y z where v: "v = (x, y, z)" by (cases v) auto
  have "x * x + y * y + z * z = 0 \<longleftrightarrow> x = 0 \<and> y = 0 \<and> z = 0"
    using sum_power2_eq_zero_iff [of x y] sum_power2_eq_zero_iff [of "sqrt (x\<^sup>2 + y\<^sup>2)" z]
    by (auto simp: power2_eq_square add_nonneg_eq_0_iff)
  then show ?thesis by (simp add: v vnorm_def norm2_def)
qed

lemma zero_length_degenerate:
  assumes "lengths l = (a, b, c)" and "a = 0 \<or> b = 0 \<or> c = 0"
  shows "det3 (matrix l) = 0"
proof -
  obtain va vb vc where m: "matrix l = (va, vb, vc)" by (metis prod_cases3)
  have "va = (0, 0, 0) \<or> vb = (0, 0, 0) \<or> vc = (0, 0, 0)"
    using assms by (auto simp: lengths_def m vnorm_zero_iff)
  then show ?thesis
    by (cases va; cases vb; cases vc) (auto simp: m det3_def)
qed

lemma quantum_shift_is_image:
  fixes a u p :: real and n :: int
  assumes "a * u \<noteq> 0"
  shows "u * (p + of_int n * a) / \<bar>a * u\<bar>
       = u * p / \<bar>a * u\<bar> + of_int (n * (if 0 < a * u then 1 else - 1))"
proof -
  have split: "u * (p + of_int n * a) / \<bar>a * u\<bar>
      = u * p / \<bar>a * u\<bar> + of_int n * ((a * u) / \<bar>a * u\<bar>)"
    by (simp add: distrib_left add_divide_distrib mult.commute mult.left_commute)
  show ?thesis
  proof (cases "0 < a * u")
    case True
    then have "(a * u) / \<bar>a * u\<bar> = 1" using assms by (metis abs_of_pos divide_self)
    then show ?thesis using True split by simp
  next
    case False
    then have "a * u < 0" using assms by linarith
    then have "(a * u) / \<bar>a * u\<bar> = - 1"
      using assms by (metis abs_of_neg divide_minus_right divide_self)
    then show ?thesis using False split by simp
  qed
qed

text \<open>
  Moving a dipole by lattice quanta moves the point handed to the search by an integer
  triple, which names the same set of images.
\<close>

lemma get_nearest_site_quanta:
  assumes len: "lengths l = (\<bar>a * u\<bar>, \<bar>b * u\<bar>, \<bar>c * u\<bar>)"
  shows "get_nearest_site l prev
           (vdiv (vscale u (vadd p (vmul (of_int n1, of_int n2, of_int n3) (a, b, c)))) (lengths l))
       = get_nearest_site l prev (vdiv (vscale u p) (lengths l))"
proof (cases "det3 (matrix l) = 0")
  case True
  then show ?thesis by (simp add: get_nearest_site_def)
next
  case False
  then have nz: "a * u \<noteq> 0" "b * u \<noteq> 0" "c * u \<noteq> 0"
    using zero_length_degenerate [OF len] by auto
  obtain p1 p2 p3 where p: "p = (p1, p2, p3)" by (cases p) auto
  have "vdiv (vscale u (vadd p (vmul (of_int n1, of_int n2, of_int n3) (a, b, c)))) (lengths l)
      = shift_image (vdiv (vscale u p) (lengths l))
          (n1 * (if 0 < a * u then 1 else - 1), n2 * (if 0 < b * u then 1 else - 1),
           n3 * (if 0 < c * u then 1 else - 1))"
    unfolding len p
    using quantum_shift_is_image [OF nz(1), of p1 n1] quantum_shift_is_image [OF nz(2), of p2 n2]
      quantum_shift_is_image [OF nz(3), of p3 n3]
    by simp
  then show ?thesis by (simp only: get_nearest_site_shift)
qed

lemma branch_loop_cong:
  assumes "\<And>i prev. i \<in> set idx \<Longrightarrow>
      get_nearest_site (ls ! i) prev (vdiv (pt' ! i) (lengths (ls ! i)))
        = get_nearest_site (ls ! i) prev (vdiv (pt ! i) (lengths (ls ! i)))"
  shows "branch_loop ls pt' idx acc = branch_loop ls pt idx acc"
  using assms
proof (induction idx arbitrary: acc)
  case Nil
  show ?case by simp
next
  case (Cons i idx)
  have here: "get_nearest_site (ls ! i) prev (vdiv (pt' ! i) (lengths (ls ! i)))
        = get_nearest_site (ls ! i) prev (vdiv (pt ! i) (lengths (ls ! i)))" for prev
    by (rule Cons.prems) simp
  have rest: "branch_loop ls pt' idx acc' = branch_loop ls pt idx acc'" for acc'
    by (rule Cons.IH) (simp add: Cons.prems)
  show ?case by (simp add: Let_def here rest split: sum.splits)
qed

lemma branch_loop_update:
  assumes j: "j < length pt"
    and same: "\<And>prev. get_nearest_site (ls ! j) prev (vdiv p' (lengths (ls ! j)))
        = get_nearest_site (ls ! j) prev (vdiv (pt ! j) (lengths (ls ! j)))"
  shows "branch_loop ls (pt[j := p']) idx acc = branch_loop ls pt idx acc"
proof (rule branch_loop_cong)
  fix i prev
  show "get_nearest_site (ls ! i) prev (vdiv (pt[j := p'] ! i) (lengths (ls ! i)))
        = get_nearest_site (ls ! i) prev (vdiv (pt ! i) (lengths (ls ! i)))"
    using j same by (cases "i = j") simp_all
qed

lemma vscale_one: "vscale 1 p = p"
  by (cases p) simp

lemma lengths_nonneg_abs:
  "lengths l = (case lengths l of (a, b, c) \<Rightarrow> (\<bar>a * 1\<bar>, \<bar>b * 1\<bar>, \<bar>c * 1\<bar>))"
  by (simp add: lengths_def vnorm_nonneg split: prod.splits)

lemma vadd_shift_left: "vadd (vadd p q) r = vadd (vadd p r) q"
  by (cases p; cases q; cases r) simp

lemma vadd_shift_right: "vadd p (vadd r q) = vadd (vadd p r) q"
  by (cases p; cases q; cases r) simp

lemma map2_vadd_update_left:
  assumes "j < length pe" "length pe = length qs"
  shows "map2 vadd (pe[j := vadd (pe ! j) q]) qs = (map2 vadd pe qs)[j := vadd (map2 vadd pe qs ! j) q]"
  using assms
  by (intro nth_equalityI) (auto simp: nth_list_update vadd_shift_left vadd_shift_right split: prod.splits)

lemma map2_vadd_update_right:
  assumes "j < length pe" "length pe = length qs"
  shows "map2 vadd pe (qs[j := vadd (qs ! j) q]) = (map2 vadd pe qs)[j := vadd (map2 vadd pe qs ! j) q]"
  using assms
  by (intro nth_equalityI) (auto simp: nth_list_update vadd_shift_left vadd_shift_right split: prod.splits)

lemma map2_vscale_update:
  assumes "j < length pt" "length units = length pt"
  shows "map2 vscale units (pt[j := x]) = (map2 vscale units pt)[j := vscale (units ! j) x]"
  using assms by (intro nth_equalityI) (auto simp: nth_list_update)

lemma same_branch_raw:
  "fst (get_same_branch_polarization_data False self) =
     (if length (structures self) < np_matrix_len (p_elecs self) then Inl IndexError
      else case branch_loop (map lattice (structures self))
                  (map2 vadd (p_elecs self) (p_ions self))
                  [0..<np_matrix_len (p_elecs self)] [] of
             Inl e \<Rightarrow> Inl e
           | Inr ss \<Rightarrow> Inr (map (\<lambda>(l, s). vmul s (lengths l)) ss))"
  by (simp add: get_same_branch_polarization_data_def get_pelecs_and_pions_def Let_def
      split: sum.splits)

lemma same_branch_converted:
  "fst (get_same_branch_polarization_data True self) =
     (case conversion_units (map (\<lambda>s. volume (lattice s)) (structures self)) of
        Inl e \<Rightarrow> Inl e
      | Inr units \<Rightarrow>
          if length (structures self) < np_matrix_len (p_elecs self) then Inl IndexError
          else case branch_loop
                      (adjust_lattices units (np_matrix_len (p_elecs self))
                         (map lattice (structures self)))
                      (map2 vscale units (map2 vadd (p_elecs self) (p_ions self)))
                      [0..<np_matrix_len (p_elecs self)] [] of
                 Inl e \<Rightarrow> Inl e
               | Inr ss \<Rightarrow> Inr (map (\<lambda>(l, s). vmul s (lengths l)) ss))"
  by (simp add: get_same_branch_polarization_data_def get_pelecs_and_pions_def Let_def comp_def
      split: sum.splits)

lemma same_branch_shift:
  assumes wf: "length pe = length qs" "length pe = length ss"
    and j: "j < length ss"
    and len': "length pe' = length pe"
    and tot: "map2 vadd pe' qs' = (map2 vadd pe qs)
        [j := vadd (map2 vadd pe qs ! j)
                (vmul (of_int n1, of_int n2, of_int n3) (lengths (lattice (ss ! j))))]"
  shows "fst (get_same_branch_polarization_data conv \<lparr>p_elecs = pe', p_ions = qs', structures = ss\<rparr>)
       = fst (get_same_branch_polarization_data conv \<lparr>p_elecs = pe, p_ions = qs, structures = ss\<rparr>)"
proof -
  define pt where "pt = map2 vadd pe qs"
  define lats where "lats = map lattice ss"
  obtain a b c where abc: "lengths (lattice (ss ! j)) = (a, b, c)"
    by (cases "lengths (lattice (ss ! j))") auto
  have pos: "0 \<le> a" "0 \<le> b" "0 \<le> c"
    using abc by (auto simp: lengths_def vnorm_nonneg split: prod.splits)
  define q where "q = vmul (of_int n1, of_int n2, of_int n3) (a, b, c)"
  have tot': "map2 vadd pe' qs' = pt[j := vadd (pt ! j) q]"
    by (simp add: tot abc q_def pt_def)
  have L: "np_matrix_len pe' = length ss" "np_matrix_len pe = length ss"
    using wf j len' by (auto simp: np_matrix_len_def)
  have jpt: "j < length pt" using wf j by (simp add: pt_def)
  have latj: "lats ! j = lattice (ss ! j)" using j by (simp add: lats_def)
  show ?thesis
  proof (cases conv)
    case False
    have "get_nearest_site (lats ! j) prev
            (vdiv (vadd (pt ! j) q) (lengths (lats ! j)))
        = get_nearest_site (lats ! j) prev (vdiv (pt ! j) (lengths (lats ! j)))" for prev
      using get_nearest_site_quanta [of "lats ! j" a 1 b c prev "pt ! j" n1 n2 n3] pos
      by (simp add: latj abc vscale_one q_def)
    then have "branch_loop lats (pt[j := vadd (pt ! j) q])
                 [0..<length ss] []
        = branch_loop lats pt [0..<length ss] []"
      by (intro branch_loop_update [OF jpt])
    then show ?thesis
      using False by (simp add: same_branch_raw L tot' pt_def [symmetric] lats_def [symmetric])
  next
    case True
    show ?thesis
    proof (cases "conversion_units (map (\<lambda>s. volume (lattice s)) ss)")
      case (Inl e)
      then show ?thesis using True by (simp add: same_branch_converted)
    next
      case (Inr units)
      have ulen: "length units = length lats"
        using conversion_units_length [OF Inr] by (simp add: lats_def)
      have adj: "adjust_lattices units (length ss) lats = map2 rescale_lattice units lats"
        using adjust_lattices_eq [OF ulen] by (simp add: lats_def)
      define lats' where "lats' = map2 rescale_lattice units lats"
      define spt where "spt = map2 vscale units pt"
      have jl: "lats' ! j = rescale_lattice (units ! j) (lattice (ss ! j))"
        using j ulen by (simp add: lats'_def lats_def)
      have len: "lengths (lats' ! j) = (\<bar>a * (units ! j)\<bar>, \<bar>b * (units ! j)\<bar>, \<bar>c * (units ! j)\<bar>)"
        by (simp add: jl lengths_rescale_lattice abc)
      have sj: "spt ! j = vscale (units ! j) (pt ! j)"
        using j ulen jpt by (simp add: spt_def lats_def)
      have jspt: "j < length spt" using j wf ulen by (simp add: spt_def lats_def pt_def)
      have upd: "map2 vscale units (pt[j := vadd (pt ! j) q])
          = spt[j := vscale (units ! j) (vadd (pt ! j) q)]"
        unfolding spt_def using jpt ulen wf
        by (intro map2_vscale_update) (simp_all add: lats_def pt_def)
      have "get_nearest_site (lats' ! j) prev
            (vdiv (vscale (units ! j) (vadd (pt ! j) q))
               (lengths (lats' ! j)))
        = get_nearest_site (lats' ! j) prev (vdiv (spt ! j) (lengths (lats' ! j)))" for prev
        unfolding sj q_def by (rule get_nearest_site_quanta [OF len])
      then have "branch_loop lats'
                   (spt[j := vscale (units ! j) (vadd (pt ! j) q)])
                   [0..<length ss] []
          = branch_loop lats' spt [0..<length ss] []"
        by (intro branch_loop_update [OF jspt])
      then show ?thesis
        using True Inr
        by (simp add: same_branch_converted L tot' pt_def [symmetric] lats_def [symmetric]
            adj upd lats'_def [symmetric] spt_def [symmetric])
    qed
  qed
qed

text \<open>
  C1: for every track built by the constructor and every step \<open>j\<close>, adding whole
  multiples of the lattice lengths of step \<open>j\<close> (one lattice quantum per direction) to
  the electronic or to the ionic dipole of that step leaves the result of
  \<open>get_same_branch_polarization_data\<close> unchanged, at step \<open>j\<close>, at every later step (and
  at the earlier ones), with and without unit conversion. Over the reals the rows are
  equal.
\<close>

theorem quantum_shift_invariance:
  assumes "Polarization_init pes pis ss = Inr self" and "j < length ss"
  shows "fst (get_same_branch_polarization_data conv
            (self\<lparr>p_elecs := (p_elecs self)
               [j := shift_by_quanta (lattice (structures self ! j)) n (p_elecs self ! j)]\<rparr>))
         = fst (get_same_branch_polarization_data conv self)
       \<and> fst (get_same_branch_polarization_data conv
            (self\<lparr>p_ions := (p_ions self)
               [j := shift_by_quanta (lattice (structures self ! j)) n (p_ions self ! j)]\<rparr>))
         = fst (get_same_branch_polarization_data conv self)"
proof -
  obtain n1 n2 n3 where n: "n = (n1, n2, n3)" by (cases n) auto
  have self: "self = \<lparr>p_elecs = pes, p_ions = pis, structures = ss\<rparr>"
    and wf: "length pes = length pis" "length pes = length ss"
    using assms(1) by (auto simp: Polarization_init_def split: if_splits)
  have j: "j < length pes" "j < length pis" using wf assms(2) by simp_all
  have e: "fst (get_same_branch_polarization_data conv
             \<lparr>p_elecs = pes[j := shift_by_quanta (lattice (ss ! j)) n (pes ! j)], p_ions = pis,
                structures = ss\<rparr>)
         = fst (get_same_branch_polarization_data conv \<lparr>p_elecs = pes, p_ions = pis, structures = ss\<rparr>)"
    using map2_vadd_update_left [OF j(1) wf(1)]
    by (intro same_branch_shift [OF wf assms(2), of _ _ n1 n2 n3]) (simp_all add: n)
  have i: "fst (get_same_branch_polarization_data conv
             \<lparr>p_elecs = pes, p_ions = pis[j := shift_by_quanta (lattice (ss ! j)) n (pis ! j)],
                structures = ss\<rparr>)
         = fst (get_same_branch_polarization_data conv \<lparr>p_elecs = pes, p_ions = pis, structures = ss\<rparr>)"
    using map2_vadd_update_right [OF j(1) wf(1)]
    by (intro same_branch_shift [OF wf assms(2), of _ _ n1 n2 n3]) (simp_all add: n)
  show ?thesis using e i by (simp add: self)
qed

lemma nearest_unit_a: "get_nearest_site unit_cell (0, 0, 0) (0, 0, 0) = Inr (0, 0, 0)"
  by code_simp

lemma nearest_unit_b: "get_nearest_site unit_cell (0, 0, 0) (0, 0, 9 / 20) = Inr (0, 0, 9 / 20)"
  by code_simp

lemma cartesian_unit_cell: "get_cartesian_coords unit_cell f = f"
  by (cases f) (simp add: get_cartesian_coords_def unit_cell_def)

lemma upt_two: "[0..<2] = [0, 1]"
  by (simp add: upt_rec)

lemma same_branch_two_steps:
  "fst (get_same_branch_polarization_data False two_steps) = Inr [(0, 0, 0), (0, 0, 9 / 20)]"
  by (simp add: two_steps_def LiO_def same_branch_raw np_matrix_len_def upt_two lengths_unit_cell
      nearest_unit_a nearest_unit_b site_coords_def cartesian_unit_cell)

theorem quantum_shift_invariance_witness:
  "fst (get_same_branch_polarization_data False
          (two_steps\<lparr>p_elecs := (p_elecs two_steps)
             [1 := shift_by_quanta (lattice (structures two_steps ! 1)) (2, 0, - 3)
                     (p_elecs two_steps ! 1)]\<rparr>))
     = Inr [(0, 0, 0), (0, 0, 9 / 20)]
   \<and> shift_by_quanta (lattice (structures two_steps ! 1)) (2, 0, - 3) (p_elecs two_steps ! 1)
     = (2, 0, - 11 / 4)"
  using quantum_shift_invariance [of "p_elecs two_steps" "p_ions two_steps" "structures two_steps" two_steps 1 False
      "(2, 0, - 3)"]
    same_branch_two_steps
  by (simp add: Polarization_init_def two_steps_def LiO_def lengths_unit_cell)

subsection \<open>The first step\<close>

lemma angle_deg_orthogonal: "dot u v = 0 \<Longrightarrow> angle_deg u v = 90"
  by (simp add: angle_deg_def abs_cap_def)

lemma from_lengths_and_angles_right:
  "from_lengths_and_angles (a, b, c) (90, 90, 90) = \<lparr>matrix = ((a, 0, 0), (0, b, 0), (0, 0, c))\<rparr>"
  by (simp add: from_lengths_and_angles_def radians_def abs_cap_def Let_def)

lemma dot_commute: "dot u v = dot v u"
  by (cases u; cases v) simp

lemma rescale_lattice_orthogonal:
  assumes "orthogonal_lattice l" and "lengths l = (a, b, c)"
  shows "rescale_lattice u l = \<lparr>matrix = ((a * u, 0, 0), (0, b * u, 0), (0, 0, c * u))\<rparr>"
proof -
  obtain va vb vc where m: "matrix l = (va, vb, vc)" by (metis prod_cases3)
  have "angles l = (90, 90, 90)"
    using assms(1) by (simp add: angles_def m orthogonal_lattice_def angle_deg_orthogonal dot_commute)
  then show ?thesis
    by (simp add: rescale_lattice_def lengths_and_angles_def assms(2) from_lengths_and_angles_right)
qed

lemma orthogonal_unit_cell: "orthogonal_lattice unit_cell"
  by (simp add: orthogonal_lattice_def unit_cell_def)

lemma rescale_unit_cell:
  "rescale_lattice u unit_cell = \<lparr>matrix = ((u, 0, 0), (0, u, 0), (0, 0, u))\<rparr>"
  using rescale_lattice_orthogonal [OF orthogonal_unit_cell lengths_unit_cell, of u] by simp

lemma branch_loop_extends:
  "branch_loop ls pt idx acc = Inr r \<Longrightarrow> \<exists>rest. r = acc @ rest \<and> length rest = length idx"
proof (induction idx arbitrary: acc)
  case Nil
  then show ?case by simp
next
  case (Cons i idx)
  then obtain img where img: "get_nearest_site (ls ! i)
        (if i = 0 then (0, 0, 0) else site_coords (last acc))
        (vdiv (pt ! i) (lengths (ls ! i))) = Inr img"
    and r: "branch_loop ls pt idx (acc @ [(ls ! i, img)]) = Inr r"
    by (auto simp: Let_def split: sum.splits)
  obtain rest where "r = (acc @ [(ls ! i, img)]) @ rest" "length rest = length idx"
    using Cons.IH [OF r] by blast
  then show ?case by (intro exI [of _ "(ls ! i, img) # rest"]) simp
qed

lemma branch_loop_first:
  assumes "branch_loop ls pt (0 # idx) [] = Inr r"
  shows "\<exists>img. get_nearest_site (ls ! 0) (0, 0, 0) (vdiv (pt ! 0) (lengths (ls ! 0))) = Inr img
           \<and> r \<noteq> [] \<and> hd r = (ls ! 0, img)"
proof -
  obtain img where img: "get_nearest_site (ls ! 0) (0, 0, 0) (vdiv (pt ! 0) (lengths (ls ! 0))) = Inr img"
    and r: "branch_loop ls pt idx [(ls ! 0, img)] = Inr r"
    using assms by (auto simp: Let_def split: sum.splits)
  obtain rest where "r = [(ls ! 0, img)] @ rest"
    using branch_loop_extends [OF r] by blast
  then have "r \<noteq> []" "hd r = (ls ! 0, img)" by simp_all
  then show ?thesis using img by blast
qed

lemma same_branch_first_row:
  assumes wf: "length pe = length qs" "length pe = length ss"
    and rows: "fst (get_same_branch_polarization_data conv
                     \<lparr>p_elecs = pe, p_ions = qs, structures = ss\<rparr>) = Inr rows"
  shows "ss \<noteq> [] \<and> rows \<noteq> []
     \<and> (\<exists>img. get_nearest_site (step_lattice conv (hd ss)) (0, 0, 0)
                 (vdiv (step_dipole conv (hd ss) (vadd (hd pe) (hd qs)))
                       (lengths (step_lattice conv (hd ss)))) = Inr img
              \<and> hd rows = vmul img (lengths (step_lattice conv (hd ss))))"
proof -
  have ne: "ss \<noteq> []"
  proof
    assume "ss = []"
    then have "fst (get_same_branch_polarization_data conv
                     \<lparr>p_elecs = pe, p_ions = qs, structures = ss\<rparr>) = Inl IndexError"
      using wf
      by (cases conv) (simp_all add: same_branch_raw same_branch_converted np_matrix_len_def
          conversion_units_def)
    then show False using rows by simp
  qed
  then have pne: "pe \<noteq> []" "qs \<noteq> []" using wf by auto
  have L: "np_matrix_len pe = length ss" using wf pne by (simp add: np_matrix_len_def)
  have idx: "[0..<length ss] = 0 # [1..<length ss]" using ne by (simp add: upt_conv_Cons)
  have pt0: "map2 vadd pe qs ! 0 = vadd (hd pe) (hd qs)"
    using pne by (cases pe; cases qs) simp_all
  have l0: "map lattice ss ! 0 = lattice (hd ss)" using ne by (cases ss) simp_all
  show ?thesis
  proof (cases conv)
    case False
    then obtain r where r: "branch_loop (map lattice ss) (map2 vadd pe qs) (0 # [1..<length ss]) [] = Inr r"
      and rr: "rows = map (\<lambda>(l, s). vmul s (lengths l)) r"
      using rows by (auto simp: same_branch_raw L idx split: sum.splits if_splits)
    obtain img where "get_nearest_site (map lattice ss ! 0) (0, 0, 0)
          (vdiv (map2 vadd pe qs ! 0) (lengths (map lattice ss ! 0))) = Inr img"
      and "r \<noteq> []" and "hd r = (map lattice ss ! 0, img)"
      using branch_loop_first [OF r] by blast
    then show ?thesis
      using False ne rr by (simp add: pt0 l0 step_lattice_def step_dipole_def hd_map)
  next
    case True
    then obtain units r where u: "conversion_units (map (\<lambda>s. volume (lattice s)) ss) = Inr units"
      and r: "branch_loop (adjust_lattices units (length ss) (map lattice ss))
                 (map2 vscale units (map2 vadd pe qs)) (0 # [1..<length ss]) [] = Inr r"
      and rr: "rows = map (\<lambda>(l, s). vmul s (lengths l)) r"
      using rows by (auto simp: same_branch_converted L idx split: sum.splits if_splits)
    have ulen: "length units = length (map lattice ss)"
      using conversion_units_length [OF u] by simp
    have adj: "adjust_lattices units (length ss) (map lattice ss)
        = map2 rescale_lattice units (map lattice ss)"
      using adjust_lattices_eq [OF ulen] by simp
    have u0: "units ! 0 = 1 / volume (lattice (hd ss)) * (e_to_muC * cm2_to_A2)"
      using u ne by (cases ss) (auto simp: conversion_units_def split: if_splits)
    have une: "units \<noteq> []" using ulen ne by auto
    have a0: "map2 rescale_lattice units (map lattice ss) ! 0
        = rescale_lattice (units ! 0) (lattice (hd ss))"
      using une ne by (cases units; cases ss) simp_all
    have s0: "map2 vscale units (map2 vadd pe qs) ! 0 = vscale (units ! 0) (vadd (hd pe) (hd qs))"
      using une pne by (cases units; cases pe; cases qs) simp_all
    obtain img where "get_nearest_site (map2 rescale_lattice units (map lattice ss) ! 0) (0, 0, 0)
          (vdiv (map2 vscale units (map2 vadd pe qs) ! 0)
             (lengths (map2 rescale_lattice units (map lattice ss) ! 0))) = Inr img"
      and "r \<noteq> []" and "hd r = (map2 rescale_lattice units (map lattice ss) ! 0, img)"
      using branch_loop_first [OF r [unfolded adj]] by blast
    then show ?thesis
      using True ne rr by (simp add: a0 s0 u0 step_lattice_def step_dipole_def hd_map)
  qed
qed

lemma dot_vadd_left: "dot (vadd u v) w = dot u w + dot v w"
  by (cases u; cases v; cases w) (simp add: algebra_simps)

lemma dot_vscale_left: "dot (vscale x u) v = x * dot u v"
  by (cases u; cases v) (simp add: algebra_simps)

lemma dot_vscale_right: "dot u (vscale x v) = x * dot u v"
  by (cases u; cases v) (simp add: algebra_simps)

lemma dot_vadd_right: "dot w (vadd u v) = dot w u + dot w v"
  by (cases u; cases v; cases w) (simp add: algebra_simps)

lemma vsub_origin: "vsub p (0, 0, 0) = p"
  by (cases p) simp

lemma orthogonal_dist2:
  fixes l :: Lattice
  assumes "orthogonal_lattice l" and m: "matrix l = (va, vb, vc)"
  shows "dist2 l (0, 0, 0) (x, y, z) = x * x * norm2 va + y * y * norm2 vb + z * z * norm2 vc"
proof -
  have o: "dot va vb = 0" "dot vb vc = 0" "dot vc va = 0"
    "dot vb va = 0" "dot vc vb = 0" "dot va vc = 0"
    using assms by (simp_all add: orthogonal_lattice_def dot_commute)
  show ?thesis
    by (simp add: dist2_def get_cartesian_coords_def m vsub_origin norm2_def dot_vadd_left
        dot_vadd_right dot_vscale_left dot_vscale_right o algebra_simps)
qed

lemma basis_norm2_positive:
  fixes l :: Lattice
  assumes "det3 (matrix l) \<noteq> 0" and m: "matrix l = (va, vb, vc)"
  shows "0 < norm2 va" "0 < norm2 vb" "0 < norm2 vc"
proof -
  have len: "lengths l = (vnorm va, vnorm vb, vnorm vc)" by (simp add: lengths_def m)
  have "vnorm va \<noteq> 0" "vnorm vb \<noteq> 0" "vnorm vc \<noteq> 0"
    using zero_length_degenerate [OF len] assms(1) by auto
  then have "norm2 va \<noteq> 0" "norm2 vb \<noteq> 0" "norm2 vc \<noteq> 0"
    by (auto simp: vnorm_def)
  then show "0 < norm2 va" "0 < norm2 vb" "0 < norm2 vc"
    using norm2_nonneg [of va] norm2_nonneg [of vb] norm2_nonneg [of vc] by linarith+
qed

lemma square_le_zero:
  fixes t A :: real
  assumes "t * t * A \<le> 0" and "0 < A"
  shows "t = 0"
proof (rule ccontr)
  assume "t \<noteq> 0"
  then have "0 < t * t" by (simp add: zero_less_mult_iff) (metis linorder_neqE_linordered_idom)
  then have "0 < t * t * A" using assms(2) by simp
  then show False using assms(1) by simp
qed

text \<open>
  In a lattice with orthogonal basis vectors a coordinate that is a whole number is
  folded to zero by any nearest image.
\<close>

lemma orthogonal_nearest_component:
  fixes l :: Lattice
  assumes orth: "orthogonal_lattice l" and d: "det3 (matrix l) \<noteq> 0"
    and least: "\<And>m. dist2 l (0, 0, 0) (shift_image f k) \<le> dist2 l (0, 0, 0) (shift_image f m)"
    and whole: "component i f = of_int z"
  shows "component i (shift_image f k) = 0"
proof -
  obtain va vb vc where m: "matrix l = (va, vb, vc)" by (metis prod_cases3)
  obtain f1 f2 f3 where f: "f = (f1, f2, f3)" by (cases f) auto
  obtain k1 k2 k3 where k: "k = (k1, k2, k3)" by (cases k) auto
  note pos = basis_norm2_positive [OF d m]
  note dist = orthogonal_dist2 [OF orth m]
  consider "i = 0" | "i = 1" | "i \<noteq> 0 \<and> i \<noteq> 1" by blast
  then show ?thesis
  proof cases
    case 1
    then have w: "f1 = of_int z" using whole by (simp add: f)
    have "(f1 + of_int k1) * (f1 + of_int k1) * norm2 va \<le> 0"
      using least [of "(- z, k2, k3)"] by (simp add: f k dist w)
    then have "f1 + of_int k1 = 0" using pos(1) by (rule square_le_zero)
    then show ?thesis using 1 by (simp add: f k)
  next
    case 2
    then have w: "f2 = of_int z" using whole by (simp add: f)
    have "(f2 + of_int k2) * (f2 + of_int k2) * norm2 vb \<le> 0"
      using least [of "(k1, - z, k3)"] by (simp add: f k dist w)
    then have "f2 + of_int k2 = 0" using pos(2) by (rule square_le_zero)
    then show ?thesis using 2 by (simp add: f k)
  next
    case 3
    then have w: "f3 = of_int z" using whole by (simp add: f)
    have "(f3 + of_int k3) * (f3 + of_int k3) * norm2 vc \<le> 0"
      using least [of "(k1, k2, - z)"] by (simp add: f k dist w)
    then have "f3 + of_int k3 = 0" using pos(3) by (rule square_le_zero)
    then show ?thesis using 3 by (simp add: f k)
  qed
qed

lemma component_vdiv: "component i (vdiv p q) = component i p / component i q"
  by (cases p; cases q) simp

lemma component_vmul: "component i (vmul p q) = component i p * component i q"
  by (cases p; cases q) simp

lemma component_vscale: "component i (vscale u p) = u * component i p"
  by (cases p) simp

lemma component_lengths_nonzero:
  assumes "det3 (matrix l) \<noteq> 0"
  shows "component i (lengths l) \<noteq> 0"
proof -
  obtain a b c where len: "lengths l = (a, b, c)" by (cases "lengths l") auto
  have "a \<noteq> 0 \<and> b \<noteq> 0 \<and> c \<noteq> 0" using zero_length_degenerate [OF len] assms by auto
  then show ?thesis by (simp add: len)
qed

lemma component_lengths_rescale:
  "component i (lengths (rescale_lattice u l)) = \<bar>component i (lengths l) * u\<bar>"
  by (cases "lengths l") (simp add: lengths_rescale_lattice)

lemma orthogonal_step_lattice:
  assumes "orthogonal_lattice (lattice s)"
  shows "orthogonal_lattice (step_lattice conv s)"
proof (cases conv)
  case False
  then show ?thesis using assms by (simp add: step_lattice_def)
next
  case True
  obtain a b c where len: "lengths (lattice s) = (a, b, c)" by (cases "lengths (lattice s)") auto
  show ?thesis
    using True by (simp add: step_lattice_def rescale_lattice_orthogonal [OF assms len]
        orthogonal_lattice_def)
qed

lemma sign_quotient_whole:
  fixes x :: real
  assumes "x \<noteq> 0"
  shows "\<exists>z::int. x / \<bar>x\<bar> = of_int z"
proof (cases "0 < x")
  case True
  then have "x / \<bar>x\<bar> = of_int 1" by simp
  then show ?thesis by blast
next
  case False
  then have "x / \<bar>x\<bar> = of_int (- 1)" using assms by simp
  then show ?thesis by blast
qed

lemma sign_multiple_whole:
  fixes x :: real and z :: int
  assumes "x \<noteq> 0"
  shows "\<exists>z'::int. of_int z * x / \<bar>x\<bar> = of_int z'"
proof -
  obtain s :: int where "x / \<bar>x\<bar> = of_int s" using sign_quotient_whole [OF assms] by blast
  then have "of_int z * (x / \<bar>x\<bar>) = of_int (z * s)" by simp
  then have "of_int z * x / \<bar>x\<bar> = of_int (z * s)" by (simp only: times_divide_eq_right)
  then show ?thesis by blast
qed

lemma quanta_point_whole:
  assumes d: "det3 (matrix (step_lattice conv s)) \<noteq> 0"
    and q: "component i p = of_int z * component i (lengths (lattice s))"
  shows "\<exists>z'::int. component i (vdiv (step_dipole conv s p) (lengths (step_lattice conv s))) = of_int z'"
proof (cases conv)
  case False
  then have "component i (lengths (lattice s)) \<noteq> 0"
    using component_lengths_nonzero [OF d, of i] by (simp add: step_lattice_def)
  then have "component i (vdiv (step_dipole conv s p) (lengths (step_lattice conv s))) = of_int z"
    using False q by (simp add: step_lattice_def step_dipole_def component_vdiv)
  then show ?thesis by blast
next
  case True
  define u where "u = 1 / volume (lattice s) * (e_to_muC * cm2_to_A2)"
  define a where "a = component i (lengths (lattice s))"
  have e: "step_lattice conv s = rescale_lattice u (lattice s)"
    "step_dipole conv s p = vscale u p"
    using True by (simp_all add: step_lattice_def step_dipole_def u_def)
  have len: "component i (lengths (step_lattice conv s)) = \<bar>a * u\<bar>"
    unfolding e a_def by (rule component_lengths_rescale)
  have "\<bar>a * u\<bar> \<noteq> 0"
    using component_lengths_nonzero [OF d, of i] unfolding len .
  then have nz: "a * u \<noteq> 0" by simp
  have "component i (vdiv (step_dipole conv s p) (lengths (step_lattice conv s)))
      = (u * component i p) / \<bar>a * u\<bar>"
    unfolding component_vdiv len unfolding e component_vscale ..
  also have "\<dots> = of_int z * (a * u) / \<bar>a * u\<bar>"
    unfolding q a_def by (simp only: mult.commute mult.left_commute mult.assoc)
  finally have "component i (vdiv (step_dipole conv s p) (lengths (step_lattice conv s)))
      = of_int z * (a * u) / \<bar>a * u\<bar>" .
  then show ?thesis using sign_multiple_whole [OF nz, of z] by simp
qed

lemma norm2_zero: "norm2 v \<le> 0 \<Longrightarrow> v = (0, 0, 0)"
proof -
  assume "norm2 v \<le> 0"
  then have "norm2 v = 0" using norm2_nonneg [of v] by linarith
  then have "vnorm v = 0" by (simp add: vnorm_def)
  then show ?thesis by (simp only: vnorm_zero_iff)
qed

lemma cartesian_zero:
  fixes l :: Lattice
  assumes d: "det3 (matrix l) \<noteq> 0" and z: "get_cartesian_coords l f = (0, 0, 0)"
  shows "f = (0, 0, 0)"
proof -
  obtain f1 f2 f3 where f: "f = (f1, f2, f3)" by (cases f) auto
  obtain n1 n2 n3 where n: "normals l = (n1, n2, n3)" by (cases "normals l") auto
  have zero: "dot (vsub (get_cartesian_coords l (f1, f2, f3)) (0, 0, 0)) v = 0" for v
    using z by (cases v) (simp add: f)
  have origin: "dot (0, 0, 0) v = 0" for v
    by (cases v) simp
  have "f1 * det3 (matrix l) = 0" "f2 * det3 (matrix l) = 0" "f3 * det3 (matrix l) = 0"
    using offset_along_normals [OF n, of f1 f2 f3 "(0, 0, 0)"] zero origin by simp_all
  then show ?thesis using d by (simp add: f)
qed

lemma whole_point_nearest_origin:
  fixes l :: Lattice
  assumes d: "det3 (matrix l) \<noteq> 0"
    and least: "\<And>m. dist2 l (0, 0, 0) (shift_image f k) \<le> dist2 l (0, 0, 0) (shift_image f m)"
    and whole: "\<forall>i < 3. \<exists>z::int. component i f = of_int z"
  shows "shift_image f k = (0, 0, 0)"
proof -
  obtain f1 f2 f3 where f: "f = (f1, f2, f3)" by (cases f) auto
  obtain z1 :: int where z1: "f1 = of_int z1" using whole [rule_format, of 0] by (auto simp: f)
  obtain z2 :: int where z2: "f2 = of_int z2" using whole [rule_format, of 1] by (auto simp: f)
  obtain z3 :: int where z3: "f3 = of_int z3" using whole [rule_format, of 2] by (auto simp: f)
  have "shift_image f (- z1, - z2, - z3) = (0, 0, 0)" by (simp add: f z1 z2 z3)
  then have "dist2 l (0, 0, 0) (shift_image f k) \<le> dist2 l (0, 0, 0) (0, 0, 0)"
    using least [of "(- z1, - z2, - z3)"] by simp
  also have "dist2 l (0, 0, 0) (0, 0, 0) = 0"
    by (cases "matrix l" rule: prod_cases3)
       (auto simp: dist2_def get_cartesian_coords_def norm2_def split: prod.splits)
  finally have "norm2 (get_cartesian_coords l (shift_image f k)) \<le> 0"
    by (simp add: dist2_def vsub_origin)
  then have "get_cartesian_coords l (shift_image f k) = (0, 0, 0)" by (rule norm2_zero)
  then show ?thesis by (rule cartesian_zero [OF d])
qed

text \<open>
  C2, as amended: at step 0 the reference of the search is the origin, so the first row
  is the periodic image of the first step's total dipole that is closest to zero in
  real space, among all images. If the raw total dipole of the first step equals one
  lattice quantum in some direction, the first row is 0 in that direction provided the
  basis vectors of the first lattice are orthogonal to one another; and on any lattice
  the whole first row is 0 when the raw total dipole is a whole number of quanta in
  every direction (one quantum in one direction and nothing in the others, say).
\<close>

theorem first_step_nearest_to_origin:
  assumes "Polarization_init pes pis ss = Inr self"
    and "fst (get_same_branch_polarization_data conv self) = Inr rows"
  shows "ss \<noteq> [] \<and> rows \<noteq> []
     \<and> (let l = step_lattice conv (hd ss);
             f = vdiv (step_dipole conv (hd ss) (vadd (hd pes) (hd pis))) (lengths l)
         in \<exists>k. hd rows = vmul (shift_image f k) (lengths l)
              \<and> (\<forall>m. dist2 l (0, 0, 0) (shift_image f k) \<le> dist2 l (0, 0, 0) (shift_image f m)))
     \<and> (orthogonal_lattice (lattice (hd ss)) \<longrightarrow>
          (\<forall>i. component i (vadd (hd pes) (hd pis)) = component i (lengths (lattice (hd ss)))
                \<longrightarrow> component i (hd rows) = 0))
     \<and> ((\<forall>i < 3. \<exists>z::int. component i (vadd (hd pes) (hd pis))
                              = of_int z * component i (lengths (lattice (hd ss))))
          \<longrightarrow> hd rows = (0, 0, 0))"
proof -
  have self: "self = \<lparr>p_elecs = pes, p_ions = pis, structures = ss\<rparr>"
    and wf: "length pes = length pis" "length pes = length ss"
    using assms(1) by (auto simp: Polarization_init_def split: if_splits)
  define l where "l = step_lattice conv (hd ss)"
  define f where "f = vdiv (step_dipole conv (hd ss) (vadd (hd pes) (hd pis))) (lengths l)"
  obtain img where ne: "ss \<noteq> []" "rows \<noteq> []"
    and img: "get_nearest_site l (0, 0, 0) f = Inr img"
    and row: "hd rows = vmul img (lengths l)"
    using same_branch_first_row [OF wf assms(2) [unfolded self]] unfolding l_def f_def by blast
  have d: "det3 (matrix l) \<noteq> 0"
    using img by (auto simp: get_nearest_site_def split: if_splits)
  obtain k where k: "img = shift_image f k"
    and least: "\<And>m. dist2 l (0, 0, 0) (shift_image f k) \<le> dist2 l (0, 0, 0) (shift_image f m)"
    using get_nearest_site_nearest [OF d, of "(0, 0, 0)" f] img by auto
  have folded: "component i (hd rows) = 0"
    if orth: "orthogonal_lattice (lattice (hd ss))"
      and q: "component i (vadd (hd pes) (hd pis)) = component i (lengths (lattice (hd ss)))"
    for i
  proof -
    have ol: "orthogonal_lattice l" unfolding l_def by (rule orthogonal_step_lattice [OF orth])
    have "component i (vadd (hd pes) (hd pis)) = of_int 1 * component i (lengths (lattice (hd ss)))"
      using q by simp
    then obtain z :: int where "component i f = of_int z"
      using quanta_point_whole [OF d [unfolded l_def]] unfolding f_def l_def by blast
    then have "component i (shift_image f k) = 0"
      by (rule orthogonal_nearest_component [OF ol d least])
    then show ?thesis by (simp add: row k component_vmul)
  qed
  have zero: "hd rows = (0, 0, 0)"
    if q: "\<forall>i < 3. \<exists>z::int. component i (vadd (hd pes) (hd pis))
                              = of_int z * component i (lengths (lattice (hd ss)))"
  proof -
    have "\<forall>i < 3. \<exists>z::int. component i f = of_int z"
      using q quanta_point_whole [OF d [unfolded l_def]] unfolding f_def l_def by blast
    then have "shift_image f k = (0, 0, 0)"
      by (rule whole_point_nearest_origin [OF d least])
    then show ?thesis by (cases "lengths l") (simp add: row k)
  qed
  show ?thesis
    unfolding Let_def l_def [symmetric] f_def [symmetric]
    using ne row k least folded zero by blast
qed

lemma nearest_unit_c: "get_nearest_site unit_cell (0, 0, 0) (1, 1 / 4, 0) = Inr (0, 1 / 4, 0)"
  by code_simp

lemma same_branch_unit_track:
  "fst (get_same_branch_polarization_data False unit_track) = Inr [(0, 1 / 4, 0)]"
  by (simp add: unit_track_def LiO_def same_branch_raw np_matrix_len_def lengths_unit_cell
      nearest_unit_c)

lemma lengths_skew_cell: "lengths skew_cell = (10, 25, 10)"
proof -
  have "sqrt 100 = 10" by (rule real_sqrt_unique) simp_all
  moreover have "sqrt 625 = 25" by (rule real_sqrt_unique) simp_all
  ultimately show ?thesis by (simp add: lengths_def skew_cell_def vnorm_def norm2_def)
qed

lemma less_three: "d < 3 \<longleftrightarrow> d = 0 \<or> d = 1 \<or> d = (2::nat)"
  by auto

lemma nearest_skew_quantum: "get_nearest_site skew_cell (0, 0, 0) (1, 0, 0) = Inr (0, 0, 0)"
  by code_simp

lemma same_branch_skew_quantum_track:
  "fst (get_same_branch_polarization_data False skew_quantum_track) = Inr [(0, 0, 0)]"
  by (simp add: skew_quantum_track_def lengths_skew_cell same_branch_raw np_matrix_len_def
      nearest_skew_quantum)

theorem first_step_nearest_to_origin_witness:
  "component 0 (vadd (hd (p_elecs unit_track)) (hd (p_ions unit_track)))
     = component 0 (lengths (lattice (hd (structures unit_track))))
   \<and> fst (get_same_branch_polarization_data False unit_track) = Inr [(0, 1 / 4, 0)]
   \<and> component 0 (hd [(0, 1 / 4, 0)]) = 0
   \<and> vadd (hd (p_elecs skew_quantum_track)) (hd (p_ions skew_quantum_track)) = (1 * 10, 0 * 25, 0 * 10)
   \<and> lengths (lattice (hd (structures skew_quantum_track))) = (10, 25, 10)
   \<and> fst (get_same_branch_polarization_data False skew_quantum_track) = Inr [(0, 0, 0)]"
proof -
  have whole: "\<forall>i < 3. \<exists>z::int. component i (vadd (hd [(10, 0, 0)]) (hd [(0, 0, 0)]))
                  = of_int z * component i (lengths skew_cell)"
  proof (intro allI impI)
    fix i :: nat
    assume "i < 3"
    then consider "i = 0" | "i = 1" | "i = 2" by (auto simp: less_three)
    then show "\<exists>z::int. component i (vadd (hd [(10, 0, 0)]) (hd [(0, 0, 0)]))
                  = of_int z * component i (lengths skew_cell)"
    proof cases
      case 1
      then show ?thesis by (intro exI [of _ 1]) (simp add: lengths_skew_cell)
    next
      case 2
      then show ?thesis by (intro exI [of _ 0]) (simp add: lengths_skew_cell)
    next
      case 3
      then show ?thesis by (intro exI [of _ 0]) (simp add: lengths_skew_cell)
    qed
  qed
  have a: "component 0 (hd [(0, 1 / 4, 0)]) = (0::real)"
    using first_step_nearest_to_origin [of "p_elecs unit_track" "p_ions unit_track" "structures unit_track" unit_track
      False "[(0, 1 / 4, 0)]"] same_branch_unit_track orthogonal_unit_cell
    by (simp add: Polarization_init_def unit_track_def LiO_def lengths_unit_cell)
  have b: "hd [(0, 0, 0)] = ((0, 0, 0) :: vec3)"
    using first_step_nearest_to_origin [of "p_elecs skew_quantum_track" "p_ions skew_quantum_track"
      "structures skew_quantum_track" skew_quantum_track False "[(0, 0, 0)]"]
      same_branch_skew_quantum_track whole
    by (simp add: Polarization_init_def skew_quantum_track_def)
  show ?thesis
    using a b same_branch_unit_track same_branch_skew_quantum_track
    by (simp add: unit_track_def LiO_def lengths_unit_cell skew_quantum_track_def
        lengths_skew_cell)
qed

text \<open>
  Without the orthogonality the second part of C2 fails. On the cell with the basis
  vectors \<open>(10, 0, 0)\<close>, \<open>(24, 7, 0)\<close> and \<open>(0, 0, 10)\<close> the total dipole
  \<open>(10, 25/4, 0)\<close> is one quantum along the first direction; the image closest to the
  origin is the one a quantum below zero, and the first row holds \<open>-10\<close> there.
\<close>

lemma nearest_skew: "get_nearest_site skew_cell (0, 0, 0) (1, 1 / 4, 0) = Inr (- 1, 1 / 4, 0)"
  by code_simp

theorem first_step_skew_cell_counterexample:
  "component 0 (vadd (hd (p_elecs skew_track)) (hd (p_ions skew_track)))
     = component 0 (lengths (lattice (hd (structures skew_track))))
   \<and> fst (get_same_branch_polarization_data False skew_track) = Inr [(- 10, 25 / 4, 0)]"
  by (simp add: skew_track_def lengths_skew_cell same_branch_raw np_matrix_len_def nearest_skew)

subsection \<open>Splines of the same-branch polarization\<close>

lemma same_branch_rows_nonempty:
  assumes "fst (get_same_branch_polarization_data conv self) = Inr tot"
  shows "tot \<noteq> []"
proof -
  have L: "0 < np_matrix_len (p_elecs self)" by (simp add: np_matrix_len_def)
  obtain ls pt r where r: "branch_loop ls pt [0..<np_matrix_len (p_elecs self)] [] = Inr r"
    and tot: "tot = map (\<lambda>(l, s). vmul s (lengths l)) r"
    using assms
    by (cases conv) (auto simp: same_branch_raw same_branch_converted split: sum.splits if_splits)
  obtain rest where "r = [] @ rest" "length rest = length [0..<np_matrix_len (p_elecs self)]"
    using branch_loop_extends [OF r] by blast
  then have "r \<noteq> []" using L by auto
  then show ?thesis by (simp add: tot)
qed

lemma py_max_Max:
  assumes "xs \<noteq> []"
  shows "py_max xs = Inr (Max (set xs))"
proof -
  obtain x rest where xs: "xs = x # rest" using assms by (cases xs) auto
  have "fold max rest x = Max (set (x # rest))" by (rule Max.set_eq_fold [symmetric])
  then show ?thesis unfolding xs py_max_def by (simp del: set_simps)
qed

lemma jump_values:
  "set (map2 (-) (column d tot) (map sp (py_range (length (column d tot)))))
     = (\<lambda>i. component d (tot ! i) - sp (real i)) ` {..<length tot}"
proof -
  have "map2 (-) (column d tot) (map sp (py_range (length (column d tot))))
      = map (\<lambda>i. component d (tot ! i) - sp (real i)) [0..<length tot]"
    by (intro nth_equalityI) (simp_all add: py_range_def column_def)
  then show ?thesis by (simp add: atLeast0LessThan)
qed

lemma jump_max:
  assumes "tot \<noteq> []"
  shows "py_max (map2 (-) (column d tot) (map sp (py_range (length (column d tot)))))
       = Inr (Max ((\<lambda>i. component d (tot ! i) - sp (real i)) ` {..<length tot}))"
proof -
  have "map2 (-) (column d tot) (map sp (py_range (length (column d tot)))) \<noteq> []"
    using assms by (simp add: column_def py_range_def)
  then have "py_max (map2 (-) (column d tot) (map sp (py_range (length (column d tot)))))
      = Inr (Max (set (map2 (-) (column d tot) (map sp (py_range (length (column d tot)))))))"
    by (rule py_max_Max)
  then show ?thesis by (simp only: jump_values)
qed

text \<open>
  C7: when the same-branch data are available, \<open>same_branch_splines\<close> returns for each
  of the three directions the fit of that direction's column, \<open>None\<close> where that fit
  raised; a failure in one direction leaves the other two as they are.
  \<open>max_spline_jumps\<close> returns, for a direction with a spline, the maximum over all
  steps of the value minus the spline's prediction, and \<open>None\<close> exactly for the
  directions whose fit failed.
\<close>

theorem same_branch_splines_per_direction:
  assumes "fst (get_same_branch_polarization_data True self) = Inr tot"
  shows "fst (same_branch_splines fit self)
           = Inr (fit 3 (py_range (length tot)) (column 0 tot),
                  fit 3 (py_range (length tot)) (column 1 tot),
                  fit 3 (py_range (length tot)) (column 2 tot))
       \<and> (\<exists>jumps. fst (max_spline_jumps fit self) = Inr jumps \<and> length jumps = 3
            \<and> (\<forall>d < 3. jumps ! d =
                  (case fit 3 (py_range (length tot)) (column d tot) of
                     None \<Rightarrow> None
                   | Some sp \<Rightarrow>
                       Some (Max ((\<lambda>i. component d (tot ! i) - sp (real i)) ` {..<length tot})))))"
proof -
  have call: "get_same_branch_polarization_data True self = (Inr tot, self)"
    using assms get_same_branch_polarization_data_self [of True self]
    by (cases "get_same_branch_polarization_data True self") simp
  have sp: "same_branch_splines fit self
      = (Inr (fit 3 (py_range (length tot)) (column 0 tot),
              fit 3 (py_range (length tot)) (column 1 tot),
              fit 3 (py_range (length tot)) (column 2 tot)), self)"
    by (simp add: same_branch_splines_def call Let_def)
  have ne: "tot \<noteq> []" by (rule same_branch_rows_nonempty [OF assms])
  define jumps where "jumps = map (\<lambda>d. case fit 3 (py_range (length tot)) (column d tot) of
                     None \<Rightarrow> None
                   | Some sp \<Rightarrow>
                       Some (Max ((\<lambda>i. component d (tot ! i) - sp (real i)) ` {..<length tot})))
                 [0, 1, 2]"
  have "max_jumps_loop tot
          [(0, fit 3 (py_range (length tot)) (column 0 tot)),
           (1, fit 3 (py_range (length tot)) (column 1 tot)),
           (2, fit 3 (py_range (length tot)) (column 2 tot))] [None, None, None] = Inr jumps"
    by (simp add: jumps_def jump_max [OF ne] Let_def split: option.splits)
  then have "fst (max_spline_jumps fit self) = Inr jumps"
    by (simp add: max_spline_jumps_def call sp)
  moreover have "length jumps = 3" by (simp add: jumps_def)
  moreover have "\<forall>d < 3. jumps ! d =
                  (case fit 3 (py_range (length tot)) (column d tot) of
                     None \<Rightarrow> None
                   | Some sp \<Rightarrow>
                       Some (Max ((\<lambda>i. component d (tot ! i) - sp (real i)) ` {..<length tot})))"
    by (auto simp: less_three jumps_def)
  ultimately show ?thesis using sp by auto
qed

lemma lengths_long_cell: "lengths long_cell = (8010883 / 5000, 1, 1)"
proof -
  have "sqrt ((8010883 / 5000) * (8010883 / 5000)) = 8010883 / (5000::real)"
    by (rule real_sqrt_unique) (simp_all add: power2_eq_square)
  then show ?thesis by (simp add: lengths_def long_cell_def vnorm_def norm2_def)
qed

lemma volume_long_cell: "volume long_cell = 8010883 / 5000"
  by (simp add: volume_def det3_def long_cell_def)

lemma orthogonal_long_cell: "orthogonal_lattice long_cell"
  by (simp add: orthogonal_lattice_def long_cell_def)

lemma rescale_long_cell:
  "rescale_lattice (- 1) long_cell = \<lparr>matrix = ((- (8010883 / 5000), 0, 0), (0, - 1, 0), (0, 0, - 1))\<rparr>"
  using rescale_lattice_orthogonal [OF orthogonal_long_cell lengths_long_cell, of "- 1"] by simp

lemma nearest_converted_long:
  "get_nearest_site \<lparr>matrix = ((- (8010883 / 5000), 0, 0), (0, - 1, 0), (0, 0, - 1))\<rparr>
     (0, 0, 0) (0, - (1 / 4), 0) = Inr (0, - (1 / 4), 0)"
  by code_simp

lemma same_branch_converted_long_track:
  "fst (get_same_branch_polarization_data True long_track) = Inr [(0, - (1 / 4), 0)]"
proof -
  have adj: "adjust_lattices [- 1] (Suc 0) [long_cell] = [rescale_lattice (- 1) long_cell]"
    using adjust_lattices_eq [of "[- 1]" "[long_cell]"] by simp
  have len: "lengths \<lparr>matrix = ((- (8010883 / 5000), 0, 0), (0, - 1, 0), (0, 0, - 1))\<rparr>
      = (8010883 / 5000, 1, 1)"
    using lengths_rescale_lattice [of "- 1" long_cell]
    by (simp add: rescale_long_cell lengths_long_cell)
  show ?thesis
    by (simp add: long_track_def same_branch_converted np_matrix_len_def
        conversion_units_def volume_long_cell e_to_muC_def cm2_to_A2_def adj rescale_long_cell
        len nearest_converted_long)
qed

theorem same_branch_splines_per_direction_witness:
  "fst (same_branch_splines nonzero_fit long_track) = Inr (None, Some (\<lambda>x. 0), None)
   \<and> fst (max_spline_jumps nonzero_fit long_track) = Inr [None, Some (- (1 / 4)), None]"
proof -
  let ?T = "[(0, - (1 / 4), 0)] :: vec3 list"
  note c = same_branch_splines_per_direction [OF same_branch_converted_long_track, of nonzero_fit]
  have s: "fst (same_branch_splines nonzero_fit long_track) = Inr (None, Some (\<lambda>x. 0), None)"
    using c by (simp add: nonzero_fit_def column_def)
  obtain jumps where j: "fst (max_spline_jumps nonzero_fit long_track) = Inr jumps"
    and len: "length jumps = 3"
    and each: "\<forall>d < 3. jumps ! d =
        (case nonzero_fit 3 (py_range (length ?T)) (column d ?T) of
           None \<Rightarrow> None
         | Some sp \<Rightarrow> Some (Max ((\<lambda>i. component d (?T ! i) - sp (real i)) ` {..<length ?T})))"
    using c by blast
  have "jumps ! 0 = None" "jumps ! 1 = Some (- (1 / 4))" "jumps ! 2 = None"
    using each by (simp_all add: nonzero_fit_def column_def lessThan_Suc)
  then have "jumps = [None, Some (- (1 / 4)), None]"
    using len by (intro nth_equalityI) (auto simp: less_three)
  then show ?thesis using j s by simp
qed

end
